theory Spec2Isabelle
  imports Complex_Main "HOL-Library.Stream"
begin

section \<open>Numbers, vectors and the vector library\<close>

text \<open>
  The source computes in single-precision \<^verbatim>\<open>float\<close>. The embedding idealises every
  \<^verbatim>\<open>float\<close> as a \<^typ>\<open>real\<close>: infinities and NaN are not represented, so a
  division by zero has HOL's value \<open>0\<close> where the hardware gives NaN or an infinity, and
  rounding is represented only where a discrete result depends on it (the product
  that is cast to an array index, see below).
  \<^verbatim>\<open>glm::vec3\<close> is a triple of such numbers.
\<close>

datatype vec3 = Vec3 (vx: real) (vy: real) (vz: real)

text \<open>Component-wise arithmetic of \<^verbatim>\<open>glm::vec3\<close> (the overloaded operators of the source).\<close>

definition vadd :: "vec3 \<Rightarrow> vec3 \<Rightarrow> vec3" where
  "vadd a b = Vec3 (vx a + vx b) (vy a + vy b) (vz a + vz b)"

definition vsub :: "vec3 \<Rightarrow> vec3 \<Rightarrow> vec3" where
  "vsub a b = Vec3 (vx a - vx b) (vy a - vy b) (vz a - vz b)"

definition vneg :: "vec3 \<Rightarrow> vec3" where
  "vneg a = Vec3 (- vx a) (- vy a) (- vz a)"

definition vmul :: "vec3 \<Rightarrow> vec3 \<Rightarrow> vec3" where
  "vmul a b = Vec3 (vx a * vx b) (vy a * vy b) (vz a * vz b)"

definition smul :: "real \<Rightarrow> vec3 \<Rightarrow> vec3" where
  "smul s a = Vec3 (s * vx a) (s * vy a) (s * vz a)"

definition vscale :: "vec3 \<Rightarrow> real \<Rightarrow> vec3" where
  "vscale a s = Vec3 (vx a * s) (vy a * s) (vz a * s)"

definition vdiv :: "vec3 \<Rightarrow> real \<Rightarrow> vec3" where
  "vdiv a s = Vec3 (vx a / s) (vy a / s) (vz a / s)"

text \<open>
  The functions of the vector library that the source calls, by their library
  definitions: \<^verbatim>\<open>dot\<close>, \<^verbatim>\<open>cross\<close>, \<^verbatim>\<open>normalize(v) = v * inversesqrt(dot(v, v))\<close>,
  \<^verbatim>\<open>length(v) = sqrt(dot(v, v))\<close>, \<^verbatim>\<open>reflect(I, N) = I - N * dot(N, I) * 2\<close> and
  \<^verbatim>\<open>pow\<close>.
\<close>

definition dot :: "vec3 \<Rightarrow> vec3 \<Rightarrow> real" where
  "dot a b = vx a * vx b + vy a * vy b + vz a * vz b"

definition cross :: "vec3 \<Rightarrow> vec3 \<Rightarrow> vec3" where
  "cross a b = Vec3 (vy a * vz b - vy b * vz a)
                    (vz a * vx b - vz b * vx a)
                    (vx a * vy b - vx b * vy a)"

definition normalize :: "vec3 \<Rightarrow> vec3" where
  "normalize v = vscale v (1 / sqrt (dot v v))"

definition reflect :: "vec3 \<Rightarrow> vec3 \<Rightarrow> vec3" where
  "reflect I N = vsub I (vscale (vscale N (dot N I)) 2)"

definition vlength :: "vec3 \<Rightarrow> real" where
  "vlength v = sqrt (dot v v)"

definition glm_pow :: "real \<Rightarrow> real \<Rightarrow> real" where
  "glm_pow b e = b powr e"

text \<open>
  Modelled from the spec: the macros \<^verbatim>\<open>TWO_PI\<close> and \<^verbatim>\<open>SQRT_OF_ONE_THIRD\<close> are
  defined outside the source file; the specification gives them as \<open>2\<pi>\<close> and
  \<open>1/sqrt(3)\<close>.
\<close>

definition TWO_PI :: real where
  "TWO_PI = 2 * pi"

definition SQRT_OF_ONE_THIRD :: real where
  "SQRT_OF_ONE_THIRD = sqrt (1 / 3)"

section \<open>Single-precision rounding\<close>

text \<open>
  One result of the source is discrete and depends on rounding: the array index
  obtained by casting the product \<^verbatim>\<open>u01(rng) * lightsNum\<close> to \<^verbatim>\<open>int\<close>. For this product
  the embedding keeps the arithmetic of \<^verbatim>\<open>float\<close>: the conversion of the \<^verbatim>\<open>int\<close> and the
  product are each rounded to the nearest number with a 24-bit significand, ties to
  the even significand, with the exponent bounded below by \<open>-126\<close> (subnormal numbers).
  Overflow to infinity, which needs magnitudes of \<open>2\<^sup>1\<^sup>2\<^sup>8\<close>, is not represented.
\<close>

definition round_half_even :: "real \<Rightarrow> int" where
  "round_half_even y =
     (let f = \<lfloor>y\<rfloor>; d = y - real_of_int f
      in if d < 1 / 2 then f else if 1 / 2 < d then f + 1 else if even f then f else f + 1)"

definition pow2 :: "int \<Rightarrow> real" where
  "pow2 j = 2 powr real_of_int j"

definition float_ulp :: "real \<Rightarrow> real" where
  "float_ulp x = pow2 (max \<lfloor>log 2 \<bar>x\<bar>\<rfloor> (- 126) - 23)"

definition float_round :: "real \<Rightarrow> real" where
  "float_round x =
     (if x = 0 then 0 else real_of_int (round_half_even (x / float_ulp x)) * float_ulp x)"

definition float_of_int :: "int \<Rightarrow> real" where
  "float_of_int n = float_round (real_of_int n)"

definition float_mul :: "real \<Rightarrow> real \<Rightarrow> real" where
  "float_mul a b = float_round (a * b)"

section \<open>The random engine\<close>

text \<open>
  The engine is passed by reference and advanced by every draw. Its state is the
  sequence of uniform samples it is still going to produce; \<^verbatim>\<open>u01(rng)\<close> returns the
  next sample together with the advanced engine.
\<close>

type_synonym rng = "real stream"

definition u01 :: "rng \<Rightarrow> real \<times> rng" where
  "u01 g = (shd g, stl g)"

section \<open>Scene and path records\<close>

text \<open>
  The structures are declared outside the source file. Each record has the fields the
  source file reads or writes; whatever else a structure holds is the record's
  extension part (\<open>more\<close>). The bounce counter and the light count are integers; the
  embedding takes them as mathematical integers, and states the 32-bit range of the
  light count where a result needs it.
\<close>

record Ray =
  origin :: vec3
  direction :: vec3

record PathSegment =
  ray :: Ray
  throughput :: vec3
  color :: vec3
  remainingBounces :: int

record ShadeableIntersection =
  surfaceNormal :: vec3
  intersectPos :: vec3

record Specular =
  exponent :: real
  color :: vec3

record Material =
  color :: vec3
  specular :: Specular
  hasReflective :: real

record Geom =
  translation :: vec3

record Camera =
  position :: vec3

section \<open>Array reads and the cast to \<^verbatim>\<open>int\<close>\<close>

text \<open>
  A read through a raw pointer outside the array, and a conversion of a \<^verbatim>\<open>float\<close>
  whose truncation does not fit a 32-bit \<^verbatim>\<open>int\<close>, are undefined behaviour in the
  source; the embedding makes both an error value.
\<close>

datatype error = CastOutOfRange | OutOfBounds

definition index :: "'a list \<Rightarrow> int \<Rightarrow> error + 'a" where
  "index xs i = (if 0 \<le> i \<and> i < int (length xs) then Inr (xs ! nat i) else Inl OutOfBounds)"

definition int_of_float :: "real \<Rightarrow> error + int" where
  "int_of_float r =
     (let t = (if 0 \<le> r then \<lfloor>r\<rfloor> else \<lceil>r\<rceil>)
      in if - (2 ^ 31) \<le> t \<and> t < 2 ^ 31 then Inr t else Inl CastOutOfRange)"

section \<open>\<^verbatim>\<open>calculateRandomDirectionInHemisphere\<close>\<close>

definition directionNotNormal :: "vec3 \<Rightarrow> vec3" where
  "directionNotNormal normal =
     (if \<bar>vx normal\<bar> < SQRT_OF_ONE_THIRD then Vec3 1 0 0
      else if \<bar>vy normal\<bar> < SQRT_OF_ONE_THIRD then Vec3 0 1 0
      else Vec3 0 0 1)"

definition perpendicularDirection1 :: "vec3 \<Rightarrow> vec3" where
  "perpendicularDirection1 normal = normalize (cross normal (directionNotNormal normal))"

definition perpendicularDirection2 :: "vec3 \<Rightarrow> vec3" where
  "perpendicularDirection2 normal = normalize (cross normal (perpendicularDirection1 normal))"

definition calculateRandomDirectionInHemisphere :: "vec3 \<Rightarrow> rng \<Rightarrow> vec3 \<times> rng" where
  "calculateRandomDirectionInHemisphere normal rng0 =
     (let (s1, rng1) = u01 rng0;
          up = sqrt s1;
          over = sqrt (1 - up * up);
          (s2, rng2) = u01 rng1;
          around = s2 * TWO_PI
      in (vadd (vadd (smul up normal)
                     (smul (cos around * over) (perpendicularDirection1 normal)))
               (smul (sin around * over) (perpendicularDirection2 normal)),
          rng2))"

section \<open>\<^verbatim>\<open>scatterRay\<close>\<close>

text \<open>
  The function mutates the path segment and the engine in place; the embedding returns
  both. The statements of the source are kept in their order, the two assignments to
  \<^verbatim>\<open>color\<close> in each branch included: the second one overwrites the first.
\<close>

definition scatterRay ::
  "'c Camera_scheme \<Rightarrow> rng \<Rightarrow> 'p PathSegment_scheme \<Rightarrow> 'i ShadeableIntersection_scheme \<Rightarrow>
   'm Material_scheme \<Rightarrow> int list \<Rightarrow> int \<Rightarrow> 'g Geom_scheme list \<Rightarrow> 'n Material_scheme list \<Rightarrow>
   error + ('p PathSegment_scheme \<times> rng)" where
  "scatterRay cam rng0 pathSegment0 intersection mat lights lightsNum geoms materials =
     (let normal = surfaceNormal intersection;
          wi = vneg (direction (ray pathSegment0));
          pathSegment1 = pathSegment0\<lparr>ray := (ray pathSegment0)\<lparr>origin := intersectPos intersection\<rparr>\<rparr>;
          (randMat, rng1) = u01 rng0;
          (sL, rng2) = u01 rng1;
          rL = float_mul sL (float_of_int lightsNum)
      in case int_of_float rL of Inl e \<Rightarrow> Inl e | Inr randLight \<Rightarrow>
         (case index lights randLight of Inl e \<Rightarrow> Inl e | Inr lightGeom \<Rightarrow>
         (case index geoms lightGeom of Inl e \<Rightarrow> Inl e | Inr geom \<Rightarrow>
           (let L0 = vsub (translation geom) (origin (ray pathSegment1));
                L = normalize L0;
                (color2, pathSegment2, rng3) =
                  (if randMat \<le> hasReflective mat then
                     (let r = reflect (direction (ray pathSegment1)) normal;
                          v = normalize (intersectPos intersection);
                          color0 = vdiv (vscale (vscale (vmul (Vec3 1 1 1) (Specular.color (specular mat)))
                                                 (hasReflective mat))
                                         (glm_pow (dot r v) (exponent (specular mat))))
                                   (hasReflective mat);
                          color1 = Specular.color (specular mat)
                      in (color1, pathSegment1\<lparr>ray := (ray pathSegment1)\<lparr>direction := r\<rparr>\<rparr>, rng2))
                   else
                     (let diffuse = dot normal L;
                          ambient = 0.2;
                          lux = diffuse + ambient;
                          color0 = vdiv (vscale (vmul (throughput pathSegment1) (Material.color mat)) lux)
                                        (1 - hasReflective mat);
                          color1 = Material.color mat;
                          pathSegment1a = pathSegment1\<lparr>throughput :=
                            vmul (throughput pathSegment1)
                                 (vdiv (vscale color1 \<bar>dot (direction (ray pathSegment1)) normal\<bar>) TWO_PI)\<rparr>;
                          (d, rng3) = calculateRandomDirectionInHemisphere normal rng2
                      in (color1, pathSegment1a\<lparr>ray := (ray pathSegment1a)\<lparr>direction := d\<rparr>\<rparr>, rng3)))
            in Inr (pathSegment2\<lparr>PathSegment.color := color2,
                                  remainingBounces := remainingBounces pathSegment2 - 1\<rparr>, rng3)))))"

section \<open>Vector algebra\<close>

lemma dot_self_nonneg: "0 \<le> dot v v"
  by (simp add: dot_def)

lemma vlength_one_iff: "vlength v = 1 \<longleftrightarrow> dot v v = 1"
  by (simp add: vlength_def)

lemma dot_commute: "dot a b = dot b a"
  by (simp add: dot_def mult.commute)

lemma dot_vscale_left: "dot (vscale a s) b = s * dot a b"
  by (simp add: dot_def vscale_def algebra_simps)

lemma dot_vscale_right: "dot a (vscale b s) = s * dot a b"
  by (simp add: dot_def vscale_def algebra_simps)

lemma dot_normalize_self:
  assumes "dot v v \<noteq> 0"
  shows "dot (normalize v) (normalize v) = 1"
proof -
  have pos: "0 < dot v v"
    using assms dot_self_nonneg [of v] by linarith
  have "dot (normalize v) (normalize v) = (1 / sqrt (dot v v)) * ((1 / sqrt (dot v v)) * dot v v)"
    by (simp add: normalize_def dot_vscale_left dot_vscale_right)
  also have "\<dots> = dot v v / (sqrt (dot v v) * sqrt (dot v v))"
    by simp
  also have "\<dots> = 1"
    using pos by simp
  finally show ?thesis .
qed

lemma dot_normalize_right: "dot a (normalize v) = dot a v / sqrt (dot v v)"
  by (simp add: normalize_def dot_vscale_right)

lemma dot_cross_left: "dot a (cross a b) = 0"
  by (simp add: dot_def cross_def algebra_simps)

lemma dot_cross_right: "dot b (cross a b) = 0"
  by (simp add: dot_def cross_def algebra_simps)

lemma lagrange: "dot (cross a b) (cross a b) = dot a a * dot b b - (dot a b)\<^sup>2"
  by (simp add: dot_def cross_def power2_eq_square algebra_simps)

lemma sqrt_third_bounds: "0 < SQRT_OF_ONE_THIRD" "SQRT_OF_ONE_THIRD < 1"
  by (simp_all add: SQRT_OF_ONE_THIRD_def)

lemma abs_less_one_sq: "\<bar>a\<bar> < (1::real) \<Longrightarrow> a\<^sup>2 < 1"
  by (simp add: abs_square_less_1)

lemma cross_notNormal_nonzero:
  assumes "dot n n = 1"
  shows "dot (cross n (directionNotNormal n)) (cross n (directionNotNormal n)) \<noteq> 0"
proof -
  obtain a b c where n: "n = Vec3 a b c" by (cases n)
  have unit: "a\<^sup>2 + b\<^sup>2 + c\<^sup>2 = 1"
    using assms by (simp add: n dot_def power2_eq_square)
  show ?thesis
  proof (cases "\<bar>a\<bar> < SQRT_OF_ONE_THIRD")
    case True
    then have "a\<^sup>2 < 1" using sqrt_third_bounds(2) by (intro abs_less_one_sq) linarith
    then have pos: "0 < b\<^sup>2 + c\<^sup>2" using unit by linarith
    have "dot (cross n (directionNotNormal n)) (cross n (directionNotNormal n)) = b\<^sup>2 + c\<^sup>2"
      using True by (simp add: n directionNotNormal_def dot_def cross_def power2_eq_square)
    then show ?thesis using pos by linarith
  next
    case F1: False
    show ?thesis
    proof (cases "\<bar>b\<bar> < SQRT_OF_ONE_THIRD")
      case True
      then have "b\<^sup>2 < 1" using sqrt_third_bounds(2) by (intro abs_less_one_sq) linarith
      then have pos: "0 < a\<^sup>2 + c\<^sup>2" using unit by linarith
      have "dot (cross n (directionNotNormal n)) (cross n (directionNotNormal n)) = a\<^sup>2 + c\<^sup>2"
        using True F1 by (simp add: n directionNotNormal_def dot_def cross_def power2_eq_square)
      then show ?thesis using pos by linarith
    next
      case False
      have "a \<noteq> 0" using F1 sqrt_third_bounds(1) by auto
      then have "0 < a\<^sup>2" by simp
      moreover have "0 \<le> b\<^sup>2" by simp
      ultimately have pos: "0 < a\<^sup>2 + b\<^sup>2" by linarith
      have "dot (cross n (directionNotNormal n)) (cross n (directionNotNormal n)) = a\<^sup>2 + b\<^sup>2"
        using False F1 by (simp add: n directionNotNormal_def dot_def cross_def power2_eq_square)
      then show ?thesis using pos by linarith
    qed
  qed
qed

lemma perp1_unit: "dot n n = 1 \<Longrightarrow> dot (perpendicularDirection1 n) (perpendicularDirection1 n) = 1"
  unfolding perpendicularDirection1_def
  by (rule dot_normalize_self) (rule cross_notNormal_nonzero)

lemma perp1_orth: "dot n (perpendicularDirection1 n) = 0"
  by (simp add: perpendicularDirection1_def dot_normalize_right dot_cross_left)

lemma cross_perp1_unit:
  assumes "dot n n = 1"
  shows "dot (cross n (perpendicularDirection1 n)) (cross n (perpendicularDirection1 n)) = 1"
  by (simp add: lagrange assms perp1_unit perp1_orth)

lemma perp2_unit: "dot n n = 1 \<Longrightarrow> dot (perpendicularDirection2 n) (perpendicularDirection2 n) = 1"
  unfolding perpendicularDirection2_def
  by (rule dot_normalize_self) (simp add: cross_perp1_unit)

lemma perp2_orth: "dot n (perpendicularDirection2 n) = 0"
  by (simp add: perpendicularDirection2_def dot_normalize_right dot_cross_left)

lemma perp12_orth: "dot (perpendicularDirection1 n) (perpendicularDirection2 n) = 0"
  by (simp add: perpendicularDirection2_def dot_normalize_right dot_cross_right)

lemma dot_combination:
  "dot (vadd (vadd (smul a n) (smul b s)) (smul c t)) m
     = a * dot n m + b * dot s m + c * dot t m"
  by (simp add: dot_def vadd_def smul_def algebra_simps)

lemma combination_norm:
  assumes "dot n n = 1" "dot s s = 1" "dot t t = 1" "dot n s = 0" "dot n t = 0" "dot s t = 0"
  shows "dot (vadd (vadd (smul a n) (smul b s)) (smul c t))
             (vadd (vadd (smul a n) (smul b s)) (smul c t)) = a\<^sup>2 + b\<^sup>2 + c\<^sup>2"
proof -
  have sn: "dot s n = 0" and tn: "dot t n = 0" and ts: "dot t s = 0"
    using assms by (simp_all add: dot_commute)
  have expand: "dot x (vadd (vadd (smul a n) (smul b s)) (smul c t))
      = a * dot x n + b * dot x s + c * dot x t" for x
    by (simp add: dot_def vadd_def smul_def algebra_simps)
  show ?thesis
    by (simp add: dot_combination expand assms sn tn ts power2_eq_square)
qed

lemma circle_scaled: "(cos w * r)\<^sup>2 + (sin w * r)\<^sup>2 = (r::real)\<^sup>2"
proof -
  have "(cos w * r)\<^sup>2 + (sin w * r)\<^sup>2 = ((cos w)\<^sup>2 + (sin w)\<^sup>2) * r\<^sup>2"
    by (simp only: power_mult_distrib distrib_right)
  also have "\<dots> = r\<^sup>2"
    by simp
  finally show ?thesis .
qed

lemma hemisphere_value:
  "fst (calculateRandomDirectionInHemisphere n g) =
     vadd (vadd (smul (sqrt (shd g)) n)
                (smul (cos (shd (stl g) * (2 * pi)) * sqrt (1 - (sqrt (shd g))\<^sup>2)) (perpendicularDirection1 n)))
          (smul (sin (shd (stl g) * (2 * pi)) * sqrt (1 - (sqrt (shd g))\<^sup>2)) (perpendicularDirection2 n))"
  by (simp add: calculateRandomDirectionInHemisphere_def u01_def Let_def TWO_PI_def power2_eq_square)

lemma hemisphere_unit:
  assumes n: "dot n n = 1" and u: "0 \<le> shd g" "shd g \<le> 1"
  shows "dot (fst (calculateRandomDirectionInHemisphere n g)) (fst (calculateRandomDirectionInHemisphere n g)) = 1"
proof -
  let ?up = "sqrt (shd g)" and ?ov = "sqrt (1 - (sqrt (shd g))\<^sup>2)"
  let ?phi = "shd (stl g) * (2 * pi)"
  have up2: "?up\<^sup>2 = shd g" using u by simp
  have ov2: "?ov\<^sup>2 = 1 - shd g" using u by simp
  have "dot (fst (calculateRandomDirectionInHemisphere n g)) (fst (calculateRandomDirectionInHemisphere n g))
      = ?up\<^sup>2 + (cos ?phi * ?ov)\<^sup>2 + (sin ?phi * ?ov)\<^sup>2"
    unfolding hemisphere_value
    by (rule combination_norm) (simp_all add: n perp1_unit perp2_unit perp1_orth perp2_orth perp12_orth)
  also have "\<dots> = ?up\<^sup>2 + ?ov\<^sup>2"
    by (simp add: circle_scaled)
  also have "\<dots> = 1"
    using u by simp
  finally show ?thesis .
qed

lemma hemisphere_dot_normal:
  assumes n: "dot n n = 1"
  shows "dot (fst (calculateRandomDirectionInHemisphere n g)) n = sqrt (shd g)"
  unfolding hemisphere_value
  by (simp add: dot_combination n dot_commute [of "perpendicularDirection1 n" n]
        dot_commute [of "perpendicularDirection2 n" n] perp1_orth perp2_orth)

section \<open>Rounding lemmas\<close>

lemma rhe_bounds: "y - 1 / 2 \<le> real_of_int (round_half_even y)" "real_of_int (round_half_even y) \<le> y + 1 / 2"
  unfolding round_half_even_def Let_def by (auto; linarith)+

lemma rhe_le_int: "y \<le> real_of_int m \<Longrightarrow> round_half_even y \<le> m"
proof -
  assume a: "y \<le> real_of_int m"
  show ?thesis
  proof (cases "y = real_of_int m")
    case True
    then show ?thesis by (simp add: round_half_even_def)
  next
    case False
    with a have "y < real_of_int m" by simp
    then have "\<lfloor>y\<rfloor> < m" by (simp add: floor_less_iff)
    then have "\<lfloor>y\<rfloor> + 1 \<le> m" by simp
    then show ?thesis unfolding round_half_even_def Let_def by auto
  qed
qed

lemma rhe_below_half:
  assumes "y < real_of_int m - 1 / 2"
  shows "round_half_even y \<le> m - 1"
proof -
  have "real_of_int (round_half_even y) \<le> y + 1 / 2" by (rule rhe_bounds)
  also have "\<dots> < real_of_int m" using assms by simp
  finally have "round_half_even y < m" by simp
  then show ?thesis by simp
qed

lemma rhe_int: "round_half_even (real_of_int m) = m"
  by (simp add: round_half_even_def)

lemma rhe_nonneg: "0 \<le> y \<Longrightarrow> 0 \<le> round_half_even y"
  unfolding round_half_even_def Let_def by auto

lemma rhe_ge_int: "real_of_int m \<le> y \<Longrightarrow> m \<le> round_half_even y"
proof -
  assume "real_of_int m \<le> y"
  then have "m \<le> \<lfloor>y\<rfloor>" by (simp add: le_floor_iff)
  then show ?thesis unfolding round_half_even_def Let_def by auto
qed


lemma pow2_pos: "0 < pow2 j" by (simp add: pow2_def)
lemma pow2_add: "pow2 (a + b) = pow2 a * pow2 b" by (simp add: pow2_def powr_add)
lemma pow2_mono: "a \<le> b \<Longrightarrow> pow2 a \<le> pow2 b" by (simp add: pow2_def)
lemma pow2_nat: "0 \<le> j \<Longrightarrow> pow2 j = real_of_int (2 ^ nat j)"
  by (simp add: pow2_def powr_real_of_int)
lemma pow2_0: "pow2 0 = 1" by (simp add: pow2_def)

lemma log2_floor:
  assumes "0 < x"
  shows "pow2 \<lfloor>log 2 x\<rfloor> \<le> x" "x < pow2 (\<lfloor>log 2 x\<rfloor> + 1)"
proof -
  have "2 powr real_of_int \<lfloor>log 2 x\<rfloor> \<le> x \<longleftrightarrow> real_of_int \<lfloor>log 2 x\<rfloor> \<le> log 2 x"
    using le_log_iff [of 2 x "real_of_int \<lfloor>log 2 x\<rfloor>"] assms by simp
  then show "pow2 \<lfloor>log 2 x\<rfloor> \<le> x"
    unfolding pow2_def using of_int_floor_le [of "log 2 x"] by blast
  have lt: "log 2 x < real_of_int (\<lfloor>log 2 x\<rfloor> + 1)" by linarith
  have "x < 2 powr real_of_int (\<lfloor>log 2 x\<rfloor> + 1) \<longleftrightarrow> log 2 x < real_of_int (\<lfloor>log 2 x\<rfloor> + 1)"
    using log_less_iff [of 2 x "real_of_int (\<lfloor>log 2 x\<rfloor> + 1)"] assms by simp
  then show "x < pow2 (\<lfloor>log 2 x\<rfloor> + 1)"
    unfolding pow2_def using lt by blast
qed

lemma log2_floor_le:
  assumes "0 < x" "x < pow2 (k + 1)"
  shows "\<lfloor>log 2 x\<rfloor> \<le> k"
proof -
  have "log 2 x < real_of_int (k + 1)"
    using assms unfolding pow2_def by (simp add: log_less_iff)
  then show ?thesis by linarith
qed

lemma log2_floor_ge:
  assumes "0 < x" "pow2 k \<le> x"
  shows "k \<le> \<lfloor>log 2 x\<rfloor>"
proof -
  have "real_of_int k \<le> log 2 x"
    using assms unfolding pow2_def by (simp add: le_log_iff)
  then show ?thesis by (simp add: le_floor_iff)
qed

lemma log2_floor_eq: "pow2 k \<le> x \<Longrightarrow> x < pow2 (k + 1) \<Longrightarrow> \<lfloor>log 2 x\<rfloor> = k"
proof -
  assume a: "pow2 k \<le> x" "x < pow2 (k + 1)"
  have "0 < x" using a(1) pow2_pos [of k] by linarith
  from log2_floor_le [OF this a(2)] log2_floor_ge [OF this a(1)] show ?thesis by simp
qed


lemma pow2_strict_mono: "a < b \<Longrightarrow> pow2 a < pow2 b" by (simp add: pow2_def)

lemma pow2_1: "pow2 1 = 2" by (simp add: pow2_def)

lemma pow2_Suc: "pow2 (j + 1) = 2 * pow2 j"
  by (simp add: pow2_add pow2_1)

lemma pow2_24: "pow2 24 = 2 ^ 24"
  using pow2_nat [of 24] by simp

lemma pow2_diff: "pow2 (a - b) = pow2 a / pow2 b"
  by (simp add: pow2_def powr_diff)

lemma float_round_pos:
  assumes "0 < x"
  shows "float_round x =
           real_of_int (round_half_even (x / pow2 (max \<lfloor>log 2 x\<rfloor> (- 126) - 23)))
             * pow2 (max \<lfloor>log 2 x\<rfloor> (- 126) - 23)"
  using assms by (simp add: float_round_def float_ulp_def)

lemma float_of_int_facts:
  assumes "0 < n"
  defines "k \<equiv> \<lfloor>log 2 (real_of_int n)\<rfloor>"
  shows "0 \<le> k"
    and "pow2 k \<le> real_of_int n"
    and "\<exists>M. float_of_int n = real_of_int M * pow2 (k - 23)"
    and "pow2 k \<le> float_of_int n"
    and "float_of_int n \<le> pow2 (k + 1)"
    and "float_of_int n \<le> real_of_int n + pow2 (k - 23) / 2"
    and "real_of_int n = pow2 k \<Longrightarrow> float_of_int n = real_of_int n"
proof -
  have npos: "0 < real_of_int n" using assms(1) by simp
  have "pow2 0 \<le> real_of_int n" using assms(1) by (simp add: pow2_0)
  from log2_floor_ge [OF npos this] show k0: "0 \<le> k" by (simp add: k_def)
  show lo: "pow2 k \<le> real_of_int n" unfolding k_def by (rule log2_floor(1) [OF npos])
  have hi: "real_of_int n < pow2 (k + 1)" unfolding k_def by (rule log2_floor(2) [OF npos])
  let ?U = "pow2 (k - 23)"
  have U: "0 < ?U" by (rule pow2_pos)
  have kmax: "max k (- 126) = k" using k0 by simp
  have N: "float_of_int n = real_of_int (round_half_even (real_of_int n / ?U)) * ?U"
    unfolding float_of_int_def float_round_pos [OF npos] using kmax by (simp add: k_def)
  then show "\<exists>M. float_of_int n = real_of_int M * pow2 (k - 23)" by blast
  have pk: "pow2 k = pow2 23 * ?U" "pow2 (k + 1) = pow2 24 * ?U"
    using pow2_add [of 23 "k - 23"] pow2_add [of 24 "k - 23"] by (simp_all add: add.commute)
  have p23: "pow2 23 = real_of_int (2 ^ 23)" and p24: "pow2 24 = real_of_int (2 ^ 24)"
    using pow2_nat [of 23] pow2_nat [of 24] by simp_all
  have "real_of_int (2 ^ 23) \<le> real_of_int n / ?U"
    using lo U unfolding pk p23 by (simp add: field_simps)
  then have "2 ^ 23 \<le> round_half_even (real_of_int n / ?U)" by (rule rhe_ge_int)
  then have "real_of_int (2 ^ 23) \<le> real_of_int (round_half_even (real_of_int n / ?U))"
    by (simp only: of_int_le_iff)
  then have "real_of_int (2 ^ 23) * ?U \<le> float_of_int n"
    unfolding N using U by (simp only: mult_le_cancel_right_pos)
  then show "pow2 k \<le> float_of_int n" unfolding pk p23 .
  have "real_of_int n / ?U \<le> real_of_int (2 ^ 24)"
    using hi U unfolding pk p24 by (simp add: field_simps)
  then have "round_half_even (real_of_int n / ?U) \<le> 2 ^ 24" by (rule rhe_le_int)
  then have "real_of_int (round_half_even (real_of_int n / ?U)) \<le> real_of_int (2 ^ 24)"
    by (simp only: of_int_le_iff)
  then have "float_of_int n \<le> real_of_int (2 ^ 24) * ?U"
    unfolding N using U by (simp only: mult_le_cancel_right_pos)
  then show "float_of_int n \<le> pow2 (k + 1)" unfolding pk p24 .
  have "real_of_int (round_half_even (real_of_int n / ?U)) \<le> real_of_int n / ?U + 1 / 2"
    by (rule rhe_bounds)
  then have "float_of_int n \<le> (real_of_int n / ?U + 1 / 2) * ?U"
    unfolding N using U by (simp only: mult_le_cancel_right_pos)
  also have "\<dots> = real_of_int n + ?U / 2"
    using U by (simp add: field_simps)
  finally show "float_of_int n \<le> real_of_int n + ?U / 2" .
  show "float_of_int n = real_of_int n" if eq: "real_of_int n = pow2 k"
  proof -
    have d: "real_of_int n / ?U = real_of_int (2 ^ 23)"
      unfolding eq pk p23 using U by simp
    have r: "round_half_even (real_of_int n / ?U) = 2 ^ 23"
      by (simp only: d rhe_int)
    show ?thesis
      unfolding N r by (simp only: eq pk(1) p23)
  qed
qed

lemma float_product_below:
  assumes n: "0 < n" and u: "0 \<le> u" "u \<le> 1 - 1 / 2 ^ 24"
  shows "0 \<le> float_mul u (float_of_int n)"
    and "float_mul u (float_of_int n) < real_of_int n"
proof -
  define k where "k = \<lfloor>log 2 (real_of_int n)\<rfloor>"
  define N where "N = float_of_int n"
  define U where "U = pow2 (k - 23)"
  note facts = float_of_int_facts [OF n, folded k_def N_def]
  have k0: "0 \<le> k" by (rule facts(1))
  obtain M where M: "N = real_of_int M * U" using facts(3) unfolding U_def by blast
  have Upos: "0 < U" unfolding U_def by (rule pow2_pos)
  have Nlo: "pow2 k \<le> N" by (rule facts(4))
  have Npos: "0 < N" using Nlo pow2_pos [of k] by linarith
  have N1: "1 \<le> N" using Nlo pow2_mono [OF k0] by (simp add: pow2_0)
  let ?x = "u * N"
  have both: "0 \<le> float_round ?x \<and> float_round ?x < real_of_int n"
  proof (cases "?x = 0")
    case True
    then show ?thesis using n by (simp add: float_round_def)
  next
    case False
    have xpos: "0 < ?x" using False u(1) Npos by (simp add: less_le)
    define ex where "ex = max \<lfloor>log 2 ?x\<rfloor> (- 126)"
    define V where "V = pow2 (ex - 23)"
    define y where "y = ?x / V"
    have Vpos: "0 < V" unfolding V_def by (rule pow2_pos)
    have fr: "float_round ?x = real_of_int (round_half_even y) * V"
      unfolding y_def V_def ex_def by (rule float_round_pos [OF xpos])
    have ypos: "0 \<le> y" unfolding y_def using xpos Vpos by simp
    have nonneg: "0 \<le> float_round ?x"
      unfolding fr using rhe_nonneg [OF ypos] Vpos by simp
    have xle: "?x \<le> N - N / 2 ^ 24"
    proof -
      have "u * N \<le> (1 - 1 / 2 ^ 24) * N"
        using u(2) Npos by (simp only: mult_le_cancel_right_pos)
      then show ?thesis by (simp add: algebra_simps)
    qed
    have xlt: "?x < N" using xle Npos by (simp add: field_simps)
    have "?x < pow2 (k + 1)" using xlt facts(5) by linarith
    from log2_floor_le [OF xpos this] k0 have exk: "ex \<le> k" by (simp add: ex_def)
    have Blt: "pow2 ex < N"
    proof (cases "- 126 \<le> \<lfloor>log 2 ?x\<rfloor>")
      case True
      then have "ex = \<lfloor>log 2 ?x\<rfloor>" by (simp add: ex_def)
      then show ?thesis using log2_floor(1) [OF xpos] xlt by simp
    next
      case False
      then have "ex = - 126" by (simp add: ex_def)
      then have "pow2 ex < pow2 0" by (simp add: pow2_strict_mono)
      then show ?thesis using N1 by (simp add: pow2_0)
    qed
    have UV: "U = real_of_int (2 ^ nat (k - ex)) * V"
    proof -
      have "U = pow2 ((k - ex) + (ex - 23))" by (simp add: U_def)
      also have "\<dots> = pow2 (k - ex) * V" unfolding V_def by (rule pow2_add)
      finally show ?thesis using exk by (simp add: pow2_nat)
    qed
    define m where "m = M * 2 ^ nat (k - ex)"
    have NV: "N = real_of_int m * V"
      unfolding m_def M by (subst UV) simp
    have twoB: "2 ^ 24 * V = 2 * pow2 ex"
    proof -
      have "pow2 24 * V = pow2 (24 + (ex - 23))" unfolding V_def by (rule pow2_add [symmetric])
      also have "\<dots> = pow2 (ex + 1)" by (simp add: add.commute)
      finally show ?thesis by (simp add: pow2_24 pow2_Suc)
    qed
    have top: "pow2 (ex + 1) = 2 ^ 24 * V"
      by (simp only: pow2_Suc twoB)
    have half: "1 / 2 < N / (2 ^ 24 * V)"
      unfolding twoB using Blt pow2_pos [of ex] by (simp add: field_simps)
    have "y \<le> (N - N / 2 ^ 24) / V"
      unfolding y_def using xle Vpos by (simp only: divide_le_cancel) simp
    also have "\<dots> = real_of_int m - N / (2 ^ 24 * V)"
      using Vpos by (simp add: NV field_simps)
    also have "\<dots> < real_of_int m - 1 / 2" using half by simp
    finally have "round_half_even y \<le> m - 1" by (rule rhe_below_half)
    then have "real_of_int (round_half_even y) \<le> real_of_int (m - 1)"
      by (simp only: of_int_le_iff)
    then have "float_round ?x \<le> real_of_int (m - 1) * V"
      unfolding fr using Vpos by (simp only: mult_le_cancel_right_pos)
    also have "\<dots> = N - V" by (simp add: NV algebra_simps)
    finally have step: "float_round ?x \<le> N - V" .
    have below: "float_round ?x < real_of_int n"
    proof (cases "N \<le> real_of_int n")
      case True
      then show ?thesis using step Vpos by linarith
    next
      case up: False
      show ?thesis
      proof (cases "ex = k")
        case True
        then have "V = U" by (simp add: V_def U_def)
        then show ?thesis using step facts(6) Upos unfolding U_def by linarith
      next
        case False
        then have "ex + 1 \<le> k" using exk by simp
        have "?x < pow2 (\<lfloor>log 2 ?x\<rfloor> + 1)" by (rule log2_floor(2) [OF xpos])
        also have "\<dots> \<le> pow2 (ex + 1)" by (rule pow2_mono) (simp add: ex_def)
        also have "\<dots> = 2 ^ 24 * V" by (rule top)
        finally have "y < real_of_int (2 ^ 24)"
          unfolding y_def using Vpos by (simp add: field_simps)
        then have "y \<le> real_of_int (2 ^ 24)" by simp
        then have "round_half_even y \<le> 2 ^ 24" by (rule rhe_le_int)
        then have "real_of_int (round_half_even y) \<le> real_of_int (2 ^ 24)"
          by (simp only: of_int_le_iff)
        then have "float_round ?x \<le> real_of_int (2 ^ 24) * V"
          unfolding fr using Vpos by (simp only: mult_le_cancel_right_pos)
        also have "\<dots> = pow2 (ex + 1)" by (simp only: top of_int_numeral of_int_power)
        also have "\<dots> \<le> pow2 k" by (rule pow2_mono) fact
        finally have le: "float_round ?x \<le> pow2 k" .
        have "real_of_int n \<noteq> pow2 k" using facts(7) up by auto
        then have "pow2 k < real_of_int n" using facts(2) by simp
        then show ?thesis using le by linarith
      qed
    qed
    show ?thesis using nonneg below by simp
  qed
  show "0 \<le> float_mul u (float_of_int n)" and "float_mul u (float_of_int n) < real_of_int n"
    using both by (simp_all add: float_mul_def N_def)
qed

lemma pow2_neg: "pow2 (- int j) = 1 / 2 ^ j"
proof -
  have "pow2 (- int j) * pow2 (int j) = pow2 0"
    using pow2_add [of "- int j" "int j"] by simp
  then have "pow2 (- int j) * 2 ^ j = 1"
    by (simp add: pow2_nat pow2_0)
  then show ?thesis by (simp add: field_simps)
qed

lemma pow2_numeral: "pow2 (numeral w) = 2 ^ numeral w"
  using pow2_nat [of "numeral w"] by simp

lemma pow2_neg_numeral: "pow2 (- numeral w) = 1 / 2 ^ numeral w"
  using pow2_neg [of "numeral w"] by simp

lemma pow2_minus_1: "pow2 (- 1) = 1 / 2"
  using pow2_neg [of 1] by simp

lemmas pow2_eval = pow2_0 pow2_1 pow2_minus_1 pow2_numeral pow2_neg_numeral

lemma float_round_exact:
  assumes "pow2 e \<le> x" and "x < pow2 (e + 1)" and "- 126 \<le> e"
      and "x / pow2 (e - 23) = real_of_int m"
  shows "float_round x = x"
proof -
  have xpos: "0 < x" using assms(1) pow2_pos [of e] by linarith
  have "\<lfloor>log 2 x\<rfloor> = e" by (rule log2_floor_eq [OF assms(1,2)])
  then have ex: "max \<lfloor>log 2 x\<rfloor> (- 126) = e" using assms(3) by simp
  have "float_round x = real_of_int (round_half_even (x / pow2 (e - 23))) * pow2 (e - 23)"
    unfolding float_round_pos [OF xpos] ex ..
  also have "\<dots> = real_of_int m * pow2 (e - 23)"
    by (simp only: assms(4) rhe_int)
  also have "\<dots> = x"
    using assms(4) pow2_pos [of "e - 23"] by (simp add: field_simps)
  finally show ?thesis .
qed

lemma float_below_one:
  assumes "float_round u = u" and "0 \<le> u" and "u < 1"
  shows "u \<le> 1 - 1 / 2 ^ 24"
proof (cases "u = 0")
  case True
  then show ?thesis by simp
next
  case False
  then have upos: "0 < u" using assms(2) by simp
  have "u < pow2 (- 1 + 1)" using assms(3) by (simp add: pow2_0)
  from log2_floor_le [OF upos this] have e: "\<lfloor>log 2 u\<rfloor> \<le> - 1" .
  show ?thesis
  proof (cases "\<lfloor>log 2 u\<rfloor> = - 1")
    case True
    then have ex: "max \<lfloor>log 2 u\<rfloor> (- 126) - 23 = - int 24" by simp
    have V: "pow2 (max \<lfloor>log 2 u\<rfloor> (- 126) - 23) = 1 / 2 ^ 24"
      unfolding ex by (rule pow2_neg)
    define K where "K = round_half_even (u / (1 / 2 ^ 24))"
    have u: "u = real_of_int K * (1 / 2 ^ 24)"
      using assms(1) unfolding float_round_pos [OF upos] V K_def by simp
    then have "real_of_int K < real_of_int (2 ^ 24)" using assms(3) by (simp add: field_simps)
    then have "K < 2 ^ 24" by (simp only: of_int_less_iff)
    then have "K \<le> 2 ^ 24 - 1" by simp
    then have "real_of_int K \<le> real_of_int (2 ^ 24 - 1)" by (simp only: of_int_le_iff)
    then show ?thesis by (subst u) (simp add: field_simps)
  next
    case False
    then have "\<lfloor>log 2 u\<rfloor> + 1 \<le> - 1" using e by simp
    then have "pow2 (\<lfloor>log 2 u\<rfloor> + 1) \<le> pow2 (- 1)" by (rule pow2_mono)
    then have "u < 1 / 2" using log2_floor(2) [OF upos] by (simp add: pow2_eval)
    then show ?thesis by simp
  qed
qed

lemma float_of_int_3: "float_of_int 3 = 3"
proof -
  have "float_round 3 = 3"
    by (rule float_round_exact [where e = 1 and m = "3 * 2 ^ 22"])
       (simp_all add: pow2_eval)
  then show ?thesis by (simp add: float_of_int_def)
qed

lemma float_round_three_quarters: "float_round (3 / 4) = 3 / 4"
  by (rule float_round_exact [where e = "- 1" and m = "3 * 2 ^ 22"])
     (simp_all add: pow2_eval)

lemma float_round_nine_quarters: "float_round (9 / 4) = 9 / 4"
  by (rule float_round_exact [where e = 1 and m = "9 * 2 ^ 20"])
     (simp_all add: pow2_eval)

lemma float_round_eval:
  assumes "pow2 e \<le> x" and "x < pow2 (e + 1)" and "- 126 \<le> e"
  shows "float_round x = real_of_int (round_half_even (x / pow2 (e - 23))) * pow2 (e - 23)"
proof -
  have xpos: "0 < x" using assms(1) pow2_pos [of e] by linarith
  have "\<lfloor>log 2 x\<rfloor> = e" by (rule log2_floor_eq [OF assms(1,2)])
  then have ex: "max \<lfloor>log 2 x\<rfloor> (- 126) = e" using assms(3) by simp
  show ?thesis unfolding float_round_pos [OF xpos] ex ..
qed

lemma float_of_int_2: "float_of_int 2 = 2"
proof -
  have "float_round 2 = 2"
    by (rule float_round_exact [where e = 1 and m = "2 ^ 23"]) (simp_all add: pow2_eval)
  then show ?thesis by (simp add: float_of_int_def)
qed

lemma float_round_three_halves: "float_round (3 / 2) = 3 / 2"
  by (rule float_round_exact [where e = 0 and m = "3 * 2 ^ 22"]) (simp_all add: pow2_eval)

lemma float_of_int_10: "float_of_int 10 = 10"
proof -
  have "float_round 10 = 10"
    by (rule float_round_exact [where e = 3 and m = "10 * 2 ^ 20"]) (simp_all add: pow2_eval)
  then show ?thesis by (simp add: float_of_int_def)
qed

section \<open>What a call of \<^verbatim>\<open>scatterRay\<close> computes\<close>

text \<open>
  The first assignment to \<^verbatim>\<open>color\<close> in each branch is overwritten before it is read,
  and the light direction \<^verbatim>\<open>L\<close> is only read by that first assignment. What remains
  of the three array reads is whether they are defined.
\<close>

lemma index_Inr_iff: "index xs i = Inr a \<longleftrightarrow> 0 \<le> i \<and> i < int (length xs) \<and> a = xs ! nat i"
  by (auto simp: index_def)

lemma hemisphere_rng: "snd (calculateRandomDirectionInHemisphere n g) = stl (stl g)"
  by (simp add: calculateRandomDirectionInHemisphere_def u01_def Let_def)

lemma scatterRay_eval:
  "scatterRay cam rng p isect mat lights lightsNum geoms materials =
     (case int_of_float (float_mul (shd (stl rng)) (float_of_int lightsNum)) of Inl e \<Rightarrow> Inl e | Inr i \<Rightarrow>
      (case index lights i of Inl e \<Rightarrow> Inl e | Inr gi \<Rightarrow>
      (case index geoms gi of Inl e \<Rightarrow> Inl e | Inr g \<Rightarrow>
        Inr (if shd rng \<le> hasReflective mat
             then (p\<lparr>ray := \<lparr>origin = intersectPos isect,
                              direction = reflect (direction (ray p)) (surfaceNormal isect)\<rparr>,
                     PathSegment.color := Specular.color (specular mat),
                     remainingBounces := remainingBounces p - 1\<rparr>,
                   stl (stl rng))
             else (p\<lparr>ray := \<lparr>origin = intersectPos isect,
                              direction = fst (calculateRandomDirectionInHemisphere
                                                (surfaceNormal isect) (stl (stl rng)))\<rparr>,
                     throughput := vmul (throughput p)
                       (vdiv (vscale (Material.color mat)
                                     \<bar>dot (direction (ray p)) (surfaceNormal isect)\<bar>) TWO_PI),
                     PathSegment.color := Material.color mat,
                     remainingBounces := remainingBounces p - 1\<rparr>,
                   stl (stl (stl (stl rng))))))))"
  by (simp add: scatterRay_def u01_def Let_def case_prod_beta hemisphere_rng
           split: sum.splits)

lemma scatterRay_specular:
  assumes "scatterRay cam rng p isect mat lights lightsNum geoms materials = Inr (p', rng')"
      and "shd rng \<le> hasReflective mat"
  shows "p' = p\<lparr>ray := \<lparr>origin = intersectPos isect,
                         direction = reflect (direction (ray p)) (surfaceNormal isect)\<rparr>,
                PathSegment.color := Specular.color (specular mat),
                remainingBounces := remainingBounces p - 1\<rparr>"
    and "rng' = stl (stl rng)"
  using assms by (auto simp: scatterRay_eval split: sum.splits)

lemma scatterRay_diffuse:
  assumes "scatterRay cam rng p isect mat lights lightsNum geoms materials = Inr (p', rng')"
      and "\<not> shd rng \<le> hasReflective mat"
  shows "p' = p\<lparr>ray := \<lparr>origin = intersectPos isect,
                         direction = fst (calculateRandomDirectionInHemisphere
                                           (surfaceNormal isect) (stl (stl rng)))\<rparr>,
                throughput := vmul (throughput p)
                  (vdiv (vscale (Material.color mat)
                                \<bar>dot (direction (ray p)) (surfaceNormal isect)\<bar>) TWO_PI),
                PathSegment.color := Material.color mat,
                remainingBounces := remainingBounces p - 1\<rparr>"
    and "rng' = stl (stl (stl (stl rng)))"
  using assms by (auto simp: scatterRay_eval split: sum.splits)

lemma scatterRay_returns_iff:
  "(\<exists>r. scatterRay cam rng p isect mat lights lightsNum geoms materials = Inr r) \<longleftrightarrow>
   (\<exists>i gi g. int_of_float (float_mul (shd (stl rng)) (float_of_int lightsNum)) = Inr i
      \<and> index lights i = Inr gi \<and> index geoms gi = Inr g)"
  by (auto simp: scatterRay_eval split: sum.splits)

section \<open>Concrete evaluation\<close>

lemmas vec_defs = vadd_def vsub_def vneg_def vmul_def smul_def vscale_def vdiv_def
  dot_def cross_def normalize_def reflect_def

lemma perpendicular_up:
  "perpendicularDirection1 (Vec3 0 1 0) = Vec3 0 0 (-1)"
  "perpendicularDirection2 (Vec3 0 1 0) = Vec3 (-1) 0 0"
  by (simp_all add: perpendicularDirection2_def perpendicularDirection1_def directionNotNormal_def
        SQRT_OF_ONE_THIRD_def vec_defs)

lemma hemisphere_up_00:
  "calculateRandomDirectionInHemisphere (Vec3 0 1 0) (0 ## 0 ## g) = (Vec3 0 0 (-1), g)"
  by (simp add: calculateRandomDirectionInHemisphere_def u01_def perpendicular_up vec_defs)

lemma reads_one_light:
  "float_mul 0 b = 0" "int_of_float 0 = Inr 0" "index [0::int] 0 = Inr 0" "index [g] 0 = Inr g"
  by (simp_all add: float_mul_def float_round_def int_of_float_def index_def)

section \<open>The diffuse branch\<close>

text \<open>
  C1, as stated, at a concrete call. A ray arriving with direction \<open>(3/5, -4/5, 0)\<close> hits a
  surface with normal \<open>(0, 1, 0)\<close>; the branch sample \<open>1/2\<close> exceeds \<open>hasReflective = 0\<close>,
  and the hemisphere samples \<open>(0, 0)\<close> give the new direction \<open>(0, 0, -1)\<close>. The stored
  throughput is \<open>2/(5\<pi>)\<close> per channel. It is not
  \<open>baseColor * |dot(newDirection, normal)| / \<pi>\<close> (which is \<open>0\<close>), nor that formula with
  only the direction replaced by the incoming one, nor with only \<open>\<pi>\<close> replaced by \<open>2\<pi>\<close>.
\<close>

theorem diffuse_throughput_counterexample:
  "scatterRay \<lparr>position = Vec3 0 1 0\<rparr> (1/2 ## 0 ## 0 ## 0 ## sconst 0)
     \<lparr>ray = \<lparr>origin = Vec3 (-3/5) (4/5) 0, direction = Vec3 (3/5) (-4/5) 0\<rparr>,
      throughput = Vec3 1 1 1, PathSegment.color = Vec3 0 0 0, remainingBounces = 8\<rparr>
     \<lparr>surfaceNormal = Vec3 0 1 0, intersectPos = Vec3 0 0 0\<rparr>
     \<lparr>Material.color = Vec3 1 1 1,
      specular = \<lparr>exponent = 1, Specular.color = Vec3 1 1 1\<rparr>, hasReflective = 0\<rparr>
     [0] 1 [\<lparr>translation = Vec3 0 1 0\<rparr>] ([] :: Material list)
   = Inr (\<lparr>ray = \<lparr>origin = Vec3 0 0 0, direction = Vec3 0 0 (-1)\<rparr>,
           throughput = Vec3 (2 / (5 * pi)) (2 / (5 * pi)) (2 / (5 * pi)),
           PathSegment.color = Vec3 1 1 1, remainingBounces = 7\<rparr>, sconst 0)
   \<and> Vec3 (2 / (5 * pi)) (2 / (5 * pi)) (2 / (5 * pi))
       \<noteq> vmul (Vec3 1 1 1) (vdiv (vscale (Vec3 1 1 1) \<bar>dot (Vec3 0 0 (-1)) (Vec3 0 1 0)\<bar>) pi)
   \<and> Vec3 (2 / (5 * pi)) (2 / (5 * pi)) (2 / (5 * pi))
       \<noteq> vmul (Vec3 1 1 1) (vdiv (vscale (Vec3 1 1 1) \<bar>dot (Vec3 (3/5) (-4/5) 0) (Vec3 0 1 0)\<bar>) pi)
   \<and> Vec3 (2 / (5 * pi)) (2 / (5 * pi)) (2 / (5 * pi))
       \<noteq> vmul (Vec3 1 1 1) (vdiv (vscale (Vec3 1 1 1) \<bar>dot (Vec3 0 0 (-1)) (Vec3 0 1 0)\<bar>) (2 * pi))"
  by (simp add: scatterRay_eval reads_one_light hemisphere_up_00 TWO_PI_def vec_defs)

text \<open>
  C1, amended. In the diffuse branch the throughput is multiplied by
  \<open>baseColor * |dot(d, normal)| / (2\<pi>)\<close>, where \<open>d\<close> is the direction the ray had when it
  arrived: the multiplication precedes the assignment of the new direction, and the
  divisor is \<^verbatim>\<open>TWO_PI\<close>. The new direction is the hemisphere sample drawn after the
  two samples of the branch and light selection.
\<close>

theorem diffuse_throughput:
  assumes "scatterRay cam rng p isect mat lights lightsNum geoms materials = Inr (p', rng')"
      and "\<not> shd rng \<le> hasReflective mat"
  shows "throughput p' =
           vmul (throughput p)
                (vdiv (vscale (Material.color mat)
                              \<bar>dot (direction (ray p)) (surfaceNormal isect)\<bar>) (2 * pi))
         \<and> direction (ray p') =
             fst (calculateRandomDirectionInHemisphere (surfaceNormal isect) (stl (stl rng)))"
  using scatterRay_diffuse(1) [OF assms] by (simp add: TWO_PI_def)

text \<open>C1, amended, at the call of the counterexample.\<close>

theorem diffuse_throughput_witness:
  "\<not> shd (1/2 ## 0 ## 0 ## 0 ## sconst 0)
       \<le> hasReflective \<lparr>Material.color = Vec3 1 1 1,
            specular = \<lparr>exponent = 1, Specular.color = Vec3 1 1 1\<rparr>, hasReflective = 0\<rparr>
   \<and> scatterRay \<lparr>position = Vec3 0 1 0\<rparr> (1/2 ## 0 ## 0 ## 0 ## sconst 0)
     \<lparr>ray = \<lparr>origin = Vec3 (-3/5) (4/5) 0, direction = Vec3 (3/5) (-4/5) 0\<rparr>,
      throughput = Vec3 1 1 1, PathSegment.color = Vec3 0 0 0, remainingBounces = 8\<rparr>
     \<lparr>surfaceNormal = Vec3 0 1 0, intersectPos = Vec3 0 0 0\<rparr>
     \<lparr>Material.color = Vec3 1 1 1,
      specular = \<lparr>exponent = 1, Specular.color = Vec3 1 1 1\<rparr>, hasReflective = 0\<rparr>
     [0] 1 [\<lparr>translation = Vec3 0 1 0\<rparr>] ([] :: Material list)
   = Inr (\<lparr>ray = \<lparr>origin = Vec3 0 0 0, direction = Vec3 0 0 (-1)\<rparr>,
           throughput = Vec3 (2 / (5 * pi)) (2 / (5 * pi)) (2 / (5 * pi)),
           PathSegment.color = Vec3 1 1 1, remainingBounces = 7\<rparr>, sconst 0)
   \<and> Vec3 (2 / (5 * pi)) (2 / (5 * pi)) (2 / (5 * pi))
       = vmul (Vec3 1 1 1) (vdiv (vscale (Vec3 1 1 1) \<bar>dot (Vec3 (3/5) (-4/5) 0) (Vec3 0 1 0)\<bar>) (2 * pi))
   \<and> Vec3 0 0 (-1) = fst (calculateRandomDirectionInHemisphere (Vec3 0 1 0) (0 ## 0 ## sconst 0))"
proof -
  let ?rng = "1/2 ## 0 ## 0 ## 0 ## sconst (0::real)"
  let ?mat = "\<lparr>Material.color = Vec3 1 1 1,
      specular = \<lparr>exponent = 1, Specular.color = Vec3 1 1 1\<rparr>, hasReflective = 0\<rparr>"
  have branch: "\<not> shd ?rng \<le> hasReflective ?mat"
    by simp
  have run: "scatterRay \<lparr>position = Vec3 0 1 0\<rparr> ?rng
     \<lparr>ray = \<lparr>origin = Vec3 (-3/5) (4/5) 0, direction = Vec3 (3/5) (-4/5) 0\<rparr>,
      throughput = Vec3 1 1 1, PathSegment.color = Vec3 0 0 0, remainingBounces = 8\<rparr>
     \<lparr>surfaceNormal = Vec3 0 1 0, intersectPos = Vec3 0 0 0\<rparr> ?mat
     [0] 1 [\<lparr>translation = Vec3 0 1 0\<rparr>] ([] :: Material list)
   = Inr (\<lparr>ray = \<lparr>origin = Vec3 0 0 0, direction = Vec3 0 0 (-1)\<rparr>,
           throughput = Vec3 (2 / (5 * pi)) (2 / (5 * pi)) (2 / (5 * pi)),
           PathSegment.color = Vec3 1 1 1, remainingBounces = 7\<rparr>, sconst 0)"
    by (simp add: scatterRay_eval reads_one_light hemisphere_up_00 TWO_PI_def vec_defs)
  from diffuse_throughput [OF run branch] run branch show ?thesis
    by simp
qed

text \<open>
  C2, as stated, at a concrete call. With \<open>hasReflective = 1/2\<close> and the branch sample
  \<open>3/4\<close> the diffuse branch runs; the light is directly above the hit point, so the
  lighting term is \<open>1.2\<close>. The stored colour is the base colour \<open>(1, 1/2, 1/4)\<close>, not the
  base colour times \<open>1.2\<close> divided by \<open>1 - 1/2\<close>.
\<close>

theorem diffuse_color_counterexample:
  "scatterRay \<lparr>position = Vec3 0 1 0\<rparr> (3/4 ## 0 ## 0 ## 0 ## sconst 0)
     \<lparr>ray = \<lparr>origin = Vec3 0 1 0, direction = Vec3 0 (-1) 0\<rparr>,
      throughput = Vec3 1 1 1, PathSegment.color = Vec3 0 0 0, remainingBounces = 8\<rparr>
     \<lparr>surfaceNormal = Vec3 0 1 0, intersectPos = Vec3 0 0 0\<rparr>
     \<lparr>Material.color = Vec3 1 (1/2) (1/4),
      specular = \<lparr>exponent = 1, Specular.color = Vec3 1 1 1\<rparr>, hasReflective = 1/2\<rparr>
     [0] 1 [\<lparr>translation = Vec3 0 1 0\<rparr>] ([] :: Material list)
   = Inr (\<lparr>ray = \<lparr>origin = Vec3 0 0 0, direction = Vec3 0 0 (-1)\<rparr>,
           throughput = Vec3 (1 / (2 * pi)) (1 / (4 * pi)) (1 / (8 * pi)),
           PathSegment.color = Vec3 1 (1/2) (1/4), remainingBounces = 7\<rparr>, sconst 0)
   \<and> max (dot (Vec3 0 1 0) (normalize (vsub (Vec3 0 1 0) (Vec3 0 0 0)))) 0 + 0.2 = 1.2
   \<and> Vec3 1 (1/2) (1/4)
       \<noteq> vdiv (vscale (Vec3 1 (1/2) (1/4))
                      (max (dot (Vec3 0 1 0) (normalize (vsub (Vec3 0 1 0) (Vec3 0 0 0)))) 0 + 0.2))
               (1 - 1/2)"
  by (simp add: scatterRay_eval reads_one_light hemisphere_up_00 TWO_PI_def vec_defs)

text \<open>
  C2, amended. For every call that takes the diffuse branch, the stored bounce colour
  is the material's base colour: the lighting estimate is assigned to \<^verbatim>\<open>color\<close> and
  overwritten by \<^verbatim>\<open>color = mat.color\<close> before it is read.
\<close>

theorem diffuse_color:
  assumes "scatterRay cam rng p isect mat lights lightsNum geoms materials = Inr (p', rng')"
      and "\<not> shd rng \<le> hasReflective mat"
  shows "PathSegment.color p' = Material.color mat"
  using scatterRay_diffuse(1) [OF assms] by simp

text \<open>
  C2, amended, at the call of the counterexample.
\<close>

theorem diffuse_color_witness:
  "\<not> shd (3/4 ## 0 ## 0 ## 0 ## sconst 0)
       \<le> hasReflective \<lparr>Material.color = Vec3 1 (1/2) (1/4),
            specular = \<lparr>exponent = 1, Specular.color = Vec3 1 1 1\<rparr>, hasReflective = 1/2\<rparr>
   \<and> scatterRay \<lparr>position = Vec3 0 1 0\<rparr> (3/4 ## 0 ## 0 ## 0 ## sconst 0)
     \<lparr>ray = \<lparr>origin = Vec3 0 1 0, direction = Vec3 0 (-1) 0\<rparr>,
      throughput = Vec3 1 1 1, PathSegment.color = Vec3 0 0 0, remainingBounces = 8\<rparr>
     \<lparr>surfaceNormal = Vec3 0 1 0, intersectPos = Vec3 0 0 0\<rparr>
     \<lparr>Material.color = Vec3 1 (1/2) (1/4),
      specular = \<lparr>exponent = 1, Specular.color = Vec3 1 1 1\<rparr>, hasReflective = 1/2\<rparr>
     [0] 1 [\<lparr>translation = Vec3 0 1 0\<rparr>] ([] :: Material list)
   = Inr (\<lparr>ray = \<lparr>origin = Vec3 0 0 0, direction = Vec3 0 0 (-1)\<rparr>,
           throughput = Vec3 (1 / (2 * pi)) (1 / (4 * pi)) (1 / (8 * pi)),
           PathSegment.color = Vec3 1 (1/2) (1/4), remainingBounces = 7\<rparr>, sconst 0)
   \<and> PathSegment.color \<lparr>ray = \<lparr>origin = Vec3 0 0 0, direction = Vec3 0 0 (-1)\<rparr>,
           throughput = Vec3 (1 / (2 * pi)) (1 / (4 * pi)) (1 / (8 * pi)),
           PathSegment.color = Vec3 1 (1/2) (1/4), remainingBounces = 7\<rparr>
       = Material.color \<lparr>Material.color = Vec3 1 (1/2) (1/4),
            specular = \<lparr>exponent = 1, Specular.color = Vec3 1 1 1\<rparr>, hasReflective = 1/2\<rparr>"
proof -
  let ?rng = "3/4 ## 0 ## 0 ## 0 ## sconst (0::real)"
  let ?mat = "\<lparr>Material.color = Vec3 1 (1/2) (1/4),
      specular = \<lparr>exponent = 1, Specular.color = Vec3 1 1 1\<rparr>, hasReflective = 1/2\<rparr>"
  have branch: "\<not> shd ?rng \<le> hasReflective ?mat"
    by simp
  have run: "scatterRay \<lparr>position = Vec3 0 1 0\<rparr> ?rng
     \<lparr>ray = \<lparr>origin = Vec3 0 1 0, direction = Vec3 0 (-1) 0\<rparr>,
      throughput = Vec3 1 1 1, PathSegment.color = Vec3 0 0 0, remainingBounces = 8\<rparr>
     \<lparr>surfaceNormal = Vec3 0 1 0, intersectPos = Vec3 0 0 0\<rparr> ?mat
     [0] 1 [\<lparr>translation = Vec3 0 1 0\<rparr>] ([] :: Material list)
   = Inr (\<lparr>ray = \<lparr>origin = Vec3 0 0 0, direction = Vec3 0 0 (-1)\<rparr>,
           throughput = Vec3 (1 / (2 * pi)) (1 / (4 * pi)) (1 / (8 * pi)),
           PathSegment.color = Vec3 1 (1/2) (1/4), remainingBounces = 7\<rparr>, sconst 0)"
    by (simp add: scatterRay_eval reads_one_light hemisphere_up_00 TWO_PI_def vec_defs)
  from diffuse_color [OF run branch] run branch show ?thesis
    by simp
qed

section \<open>The specular branch\<close>

text \<open>
  C3, as stated, at a concrete call. With \<open>hasReflective = 1\<close> the specular branch runs
  and the reflected direction is \<open>(3/5, 4/5, 0)\<close>. The highlight formula gives \<open>9/25\<close> of
  the specular colour when the view direction is the normalised hit position (as the
  source computes it), and \<open>16/25\<close> when it points from the hit position to the camera.
  The stored colour is the specular colour itself.
\<close>

theorem specular_color_counterexample:
  "scatterRay \<lparr>position = Vec3 1 1 0\<rparr> (1/2 ## 0 ## sconst 0)
     \<lparr>ray = \<lparr>origin = Vec3 (-2) 4 0, direction = Vec3 (3/5) (-4/5) 0\<rparr>,
      throughput = Vec3 1 1 1, PathSegment.color = Vec3 0 0 0, remainingBounces = 8\<rparr>
     \<lparr>surfaceNormal = Vec3 0 1 0, intersectPos = Vec3 1 0 0\<rparr>
     \<lparr>Material.color = Vec3 1 1 1,
      specular = \<lparr>exponent = 2, Specular.color = Vec3 1 (1/2) (1/4)\<rparr>, hasReflective = 1\<rparr>
     [0] 1 [\<lparr>translation = Vec3 0 1 0\<rparr>] ([] :: Material list)
   = Inr (\<lparr>ray = \<lparr>origin = Vec3 1 0 0, direction = Vec3 (3/5) (4/5) 0\<rparr>,
           throughput = Vec3 1 1 1,
           PathSegment.color = Vec3 1 (1/2) (1/4), remainingBounces = 7\<rparr>, sconst 0)
   \<and> reflect (Vec3 (3/5) (-4/5) 0) (Vec3 0 1 0) = Vec3 (3/5) (4/5) 0
   \<and> vdiv (vscale (vscale (Vec3 1 (1/2) (1/4)) 1)
                   (glm_pow (max (dot (Vec3 (3/5) (4/5) 0) (normalize (Vec3 1 0 0))) 0) 2)) 1
       = Vec3 (9/25) (9/50) (9/100)
   \<and> vdiv (vscale (vscale (Vec3 1 (1/2) (1/4)) 1)
                   (glm_pow (max (dot (Vec3 (3/5) (4/5) 0)
                                      (normalize (vsub (Vec3 1 1 0) (Vec3 1 0 0)))) 0) 2)) 1
       = Vec3 (16/25) (8/25) (4/25)
   \<and> Vec3 1 (1/2) (1/4) \<noteq> Vec3 (9/25) (9/50) (9/100)
   \<and> Vec3 1 (1/2) (1/4) \<noteq> Vec3 (16/25) (8/25) (4/25)"
  by (simp add: scatterRay_eval reads_one_light glm_pow_def vec_defs power2_eq_square)

text \<open>
  C3, amended. For every call that takes the specular branch, the stored bounce colour
  is the material's specular colour: the highlight term is assigned to \<^verbatim>\<open>color\<close> and
  overwritten by \<^verbatim>\<open>color = mat.specular.color\<close> before it is read.
\<close>

theorem specular_color:
  assumes "scatterRay cam rng p isect mat lights lightsNum geoms materials = Inr (p', rng')"
      and "shd rng \<le> hasReflective mat"
  shows "PathSegment.color p' = Specular.color (specular mat)"
  using scatterRay_specular(1) [OF assms] by simp

text \<open>
  C3, amended, at the call of the counterexample.
\<close>

theorem specular_color_witness:
  "shd (1/2 ## 0 ## sconst 0)
       \<le> hasReflective \<lparr>Material.color = Vec3 1 1 1,
            specular = \<lparr>exponent = 2, Specular.color = Vec3 1 (1/2) (1/4)\<rparr>, hasReflective = 1\<rparr>
   \<and> scatterRay \<lparr>position = Vec3 1 1 0\<rparr> (1/2 ## 0 ## sconst 0)
     \<lparr>ray = \<lparr>origin = Vec3 (-2) 4 0, direction = Vec3 (3/5) (-4/5) 0\<rparr>,
      throughput = Vec3 1 1 1, PathSegment.color = Vec3 0 0 0, remainingBounces = 8\<rparr>
     \<lparr>surfaceNormal = Vec3 0 1 0, intersectPos = Vec3 1 0 0\<rparr>
     \<lparr>Material.color = Vec3 1 1 1,
      specular = \<lparr>exponent = 2, Specular.color = Vec3 1 (1/2) (1/4)\<rparr>, hasReflective = 1\<rparr>
     [0] 1 [\<lparr>translation = Vec3 0 1 0\<rparr>] ([] :: Material list)
   = Inr (\<lparr>ray = \<lparr>origin = Vec3 1 0 0, direction = Vec3 (3/5) (4/5) 0\<rparr>,
           throughput = Vec3 1 1 1,
           PathSegment.color = Vec3 1 (1/2) (1/4), remainingBounces = 7\<rparr>, sconst 0)
   \<and> PathSegment.color \<lparr>ray = \<lparr>origin = Vec3 1 0 0, direction = Vec3 (3/5) (4/5) 0\<rparr>,
           throughput = Vec3 1 1 1,
           PathSegment.color = Vec3 1 (1/2) (1/4), remainingBounces = 7\<rparr>
       = Specular.color (specular \<lparr>Material.color = Vec3 1 1 1,
            specular = \<lparr>exponent = 2, Specular.color = Vec3 1 (1/2) (1/4)\<rparr>, hasReflective = 1\<rparr>)"
proof -
  let ?rng = "1/2 ## 0 ## sconst (0::real)"
  let ?mat = "\<lparr>Material.color = Vec3 1 1 1,
      specular = \<lparr>exponent = 2, Specular.color = Vec3 1 (1/2) (1/4)\<rparr>, hasReflective = 1\<rparr>"
  have branch: "shd ?rng \<le> hasReflective ?mat"
    by simp
  have run: "scatterRay \<lparr>position = Vec3 1 1 0\<rparr> ?rng
     \<lparr>ray = \<lparr>origin = Vec3 (-2) 4 0, direction = Vec3 (3/5) (-4/5) 0\<rparr>,
      throughput = Vec3 1 1 1, PathSegment.color = Vec3 0 0 0, remainingBounces = 8\<rparr>
     \<lparr>surfaceNormal = Vec3 0 1 0, intersectPos = Vec3 1 0 0\<rparr> ?mat
     [0] 1 [\<lparr>translation = Vec3 0 1 0\<rparr>] ([] :: Material list)
   = Inr (\<lparr>ray = \<lparr>origin = Vec3 1 0 0, direction = Vec3 (3/5) (4/5) 0\<rparr>,
           throughput = Vec3 1 1 1,
           PathSegment.color = Vec3 1 (1/2) (1/4), remainingBounces = 7\<rparr>, sconst 0)"
    by (simp add: scatterRay_eval reads_one_light vec_defs)
  from specular_color [OF run branch] run branch show ?thesis
    by simp
qed

section \<open>Branch selection\<close>

text \<open>
  C4. A call whose array reads are defined takes the specular branch exactly when the
  first sample drawn is at most \<open>hasReflective\<close>, and the diffuse branch otherwise. The
  branches are told apart by everything they leave behind: the specular branch sets
  the direction to the reflection, stores the specular colour, keeps the throughput
  and has drawn two samples; the diffuse branch sets the direction to the hemisphere
  sample, scales the throughput, stores the base colour and has drawn four. With
  \<open>hasReflective = 1\<close> every sample up to \<open>1\<close> selects the specular branch, and the new
  direction is the reflection of the incoming one.
\<close>

theorem branch_selection:
  assumes "scatterRay cam rng p isect mat lights lightsNum geoms materials = Inr (p', rng')"
  shows "(p', rng') =
           (if shd rng \<le> hasReflective mat
            then (p\<lparr>ray := \<lparr>origin = intersectPos isect,
                             direction = reflect (direction (ray p)) (surfaceNormal isect)\<rparr>,
                    PathSegment.color := Specular.color (specular mat),
                    remainingBounces := remainingBounces p - 1\<rparr>,
                  stl (stl rng))
            else (p\<lparr>ray := \<lparr>origin = intersectPos isect,
                             direction = fst (calculateRandomDirectionInHemisphere
                                               (surfaceNormal isect) (stl (stl rng)))\<rparr>,
                    throughput := vmul (throughput p)
                      (vdiv (vscale (Material.color mat)
                                    \<bar>dot (direction (ray p)) (surfaceNormal isect)\<bar>) TWO_PI),
                    PathSegment.color := Material.color mat,
                    remainingBounces := remainingBounces p - 1\<rparr>,
                  stl (stl (stl (stl rng)))))
         \<and> (hasReflective mat = 1 \<and> shd rng \<le> 1 \<longrightarrow>
              direction (ray p') = reflect (direction (ray p)) (surfaceNormal isect)
              \<and> rng' = stl (stl rng))"
proof (cases "shd rng \<le> hasReflective mat")
  case True
  from scatterRay_specular [OF assms True] True show ?thesis by simp
next
  case False
  from scatterRay_diffuse [OF assms False] False show ?thesis by auto
qed

text \<open>
  C4 at two calls: \<open>hasReflective = 1\<close> with sample \<open>1/2\<close> (specular), and
  \<open>hasReflective = 1/2\<close> with sample \<open>3/4\<close> (diffuse).
\<close>

theorem branch_selection_witness:
  "scatterRay \<lparr>position = Vec3 1 1 0\<rparr> (1/2 ## 0 ## sconst 0)
     \<lparr>ray = \<lparr>origin = Vec3 (-2) 4 0, direction = Vec3 (3/5) (-4/5) 0\<rparr>,
      throughput = Vec3 1 1 1, PathSegment.color = Vec3 0 0 0, remainingBounces = 8\<rparr>
     \<lparr>surfaceNormal = Vec3 0 1 0, intersectPos = Vec3 1 0 0\<rparr>
     \<lparr>Material.color = Vec3 1 1 1,
      specular = \<lparr>exponent = 2, Specular.color = Vec3 1 (1/2) (1/4)\<rparr>, hasReflective = 1\<rparr>
     [0] 1 [\<lparr>translation = Vec3 0 1 0\<rparr>] ([] :: Material list)
   = Inr (\<lparr>ray = \<lparr>origin = Vec3 1 0 0, direction = Vec3 (3/5) (4/5) 0\<rparr>,
           throughput = Vec3 1 1 1,
           PathSegment.color = Vec3 1 (1/2) (1/4), remainingBounces = 7\<rparr>, sconst 0)
   \<and> hasReflective \<lparr>Material.color = Vec3 1 1 1,
        specular = \<lparr>exponent = 2, Specular.color = Vec3 1 (1/2) (1/4)\<rparr>, hasReflective = 1\<rparr> = 1
   \<and> shd (1/2 ## 0 ## sconst 0) \<le> (1::real)
   \<and> direction (ray \<lparr>ray = \<lparr>origin = Vec3 1 0 0, direction = Vec3 (3/5) (4/5) 0\<rparr>,
           throughput = Vec3 1 1 1,
           PathSegment.color = Vec3 1 (1/2) (1/4), remainingBounces = 7\<rparr>)
       = reflect (Vec3 (3/5) (-4/5) 0) (Vec3 0 1 0)
   \<and> scatterRay \<lparr>position = Vec3 1 1 0\<rparr> (3/4 ## 0 ## 0 ## 0 ## sconst 0)
     \<lparr>ray = \<lparr>origin = Vec3 (-2) 4 0, direction = Vec3 (3/5) (-4/5) 0\<rparr>,
      throughput = Vec3 1 1 1, PathSegment.color = Vec3 0 0 0, remainingBounces = 8\<rparr>
     \<lparr>surfaceNormal = Vec3 0 1 0, intersectPos = Vec3 1 0 0\<rparr>
     \<lparr>Material.color = Vec3 1 1 1,
      specular = \<lparr>exponent = 2, Specular.color = Vec3 1 (1/2) (1/4)\<rparr>, hasReflective = 1/2\<rparr>
     [0] 1 [\<lparr>translation = Vec3 0 1 0\<rparr>] ([] :: Material list)
   = Inr (\<lparr>ray = \<lparr>origin = Vec3 1 0 0, direction = Vec3 0 0 (-1)\<rparr>,
           throughput = Vec3 (2 / (5 * pi)) (2 / (5 * pi)) (2 / (5 * pi)),
           PathSegment.color = Vec3 1 1 1, remainingBounces = 7\<rparr>, sconst 0)"
proof -
  have run1: "scatterRay \<lparr>position = Vec3 1 1 0\<rparr> (1/2 ## 0 ## sconst 0)
     \<lparr>ray = \<lparr>origin = Vec3 (-2) 4 0, direction = Vec3 (3/5) (-4/5) 0\<rparr>,
      throughput = Vec3 1 1 1, PathSegment.color = Vec3 0 0 0, remainingBounces = 8\<rparr>
     \<lparr>surfaceNormal = Vec3 0 1 0, intersectPos = Vec3 1 0 0\<rparr>
     \<lparr>Material.color = Vec3 1 1 1,
      specular = \<lparr>exponent = 2, Specular.color = Vec3 1 (1/2) (1/4)\<rparr>, hasReflective = 1\<rparr>
     [0] 1 [\<lparr>translation = Vec3 0 1 0\<rparr>] ([] :: Material list)
   = Inr (\<lparr>ray = \<lparr>origin = Vec3 1 0 0, direction = Vec3 (3/5) (4/5) 0\<rparr>,
           throughput = Vec3 1 1 1,
           PathSegment.color = Vec3 1 (1/2) (1/4), remainingBounces = 7\<rparr>, sconst 0)"
    by (simp add: scatterRay_eval reads_one_light vec_defs)
  have run2: "scatterRay \<lparr>position = Vec3 1 1 0\<rparr> (3/4 ## 0 ## 0 ## 0 ## sconst 0)
     \<lparr>ray = \<lparr>origin = Vec3 (-2) 4 0, direction = Vec3 (3/5) (-4/5) 0\<rparr>,
      throughput = Vec3 1 1 1, PathSegment.color = Vec3 0 0 0, remainingBounces = 8\<rparr>
     \<lparr>surfaceNormal = Vec3 0 1 0, intersectPos = Vec3 1 0 0\<rparr>
     \<lparr>Material.color = Vec3 1 1 1,
      specular = \<lparr>exponent = 2, Specular.color = Vec3 1 (1/2) (1/4)\<rparr>, hasReflective = 1/2\<rparr>
     [0] 1 [\<lparr>translation = Vec3 0 1 0\<rparr>] ([] :: Material list)
   = Inr (\<lparr>ray = \<lparr>origin = Vec3 1 0 0, direction = Vec3 0 0 (-1)\<rparr>,
           throughput = Vec3 (2 / (5 * pi)) (2 / (5 * pi)) (2 / (5 * pi)),
           PathSegment.color = Vec3 1 1 1, remainingBounces = 7\<rparr>, sconst 0)"
    by (simp add: scatterRay_eval reads_one_light hemisphere_up_00 TWO_PI_def vec_defs)
  from branch_selection [OF run1] branch_selection [OF run2] run1 run2 show ?thesis
    by (simp add: vec_defs)
qed

text \<open>
  C5, as stated, at two concrete calls with \<open>hasReflective = 0\<close>, normal \<open>(0, 1, 0)\<close>,
  throughput \<open>(1, 1, 1)\<close> and one light directly above. With the branch sample \<open>0\<close>,
  which lies in \<open>[0, 1)\<close>, the test \<open>0 \<le> 0\<close> succeeds and the specular branch runs: the
  direction is the reflection, the specular colour is stored and only two samples are
  drawn. With the branch sample \<open>1/2\<close> the diffuse branch runs, the lighting term is
  \<open>1.2\<close>, and the stored colour is the base colour, not \<open>1.2\<close> times it.
\<close>

theorem no_reflectivity_counterexample:
  "scatterRay \<lparr>position = Vec3 0 1 0\<rparr> (0 ## 0 ## 0 ## 0 ## sconst 0)
     \<lparr>ray = \<lparr>origin = Vec3 0 1 0, direction = Vec3 0 (-1) 0\<rparr>,
      throughput = Vec3 1 1 1, PathSegment.color = Vec3 0 0 0, remainingBounces = 8\<rparr>
     \<lparr>surfaceNormal = Vec3 0 1 0, intersectPos = Vec3 0 0 0\<rparr>
     \<lparr>Material.color = Vec3 1 (1/2) (1/4),
      specular = \<lparr>exponent = 1, Specular.color = Vec3 (1/8) (1/8) (1/8)\<rparr>, hasReflective = 0\<rparr>
     [0] 1 [\<lparr>translation = Vec3 0 1 0\<rparr>] ([] :: Material list)
   = Inr (\<lparr>ray = \<lparr>origin = Vec3 0 0 0, direction = Vec3 0 1 0\<rparr>,
           throughput = Vec3 1 1 1,
           PathSegment.color = Vec3 (1/8) (1/8) (1/8), remainingBounces = 7\<rparr>, 0 ## 0 ## sconst 0)
   \<and> reflect (Vec3 0 (-1) 0) (Vec3 0 1 0) = Vec3 0 1 0
   \<and> Vec3 0 1 0 \<noteq> fst (calculateRandomDirectionInHemisphere (Vec3 0 1 0) (0 ## 0 ## sconst 0))
   \<and> scatterRay \<lparr>position = Vec3 0 1 0\<rparr> (1/2 ## 0 ## 0 ## 0 ## sconst 0)
     \<lparr>ray = \<lparr>origin = Vec3 0 1 0, direction = Vec3 0 (-1) 0\<rparr>,
      throughput = Vec3 1 1 1, PathSegment.color = Vec3 0 0 0, remainingBounces = 8\<rparr>
     \<lparr>surfaceNormal = Vec3 0 1 0, intersectPos = Vec3 0 0 0\<rparr>
     \<lparr>Material.color = Vec3 1 (1/2) (1/4),
      specular = \<lparr>exponent = 1, Specular.color = Vec3 (1/8) (1/8) (1/8)\<rparr>, hasReflective = 0\<rparr>
     [0] 1 [\<lparr>translation = Vec3 0 1 0\<rparr>] ([] :: Material list)
   = Inr (\<lparr>ray = \<lparr>origin = Vec3 0 0 0, direction = Vec3 0 0 (-1)\<rparr>,
           throughput = Vec3 (1 / (2 * pi)) (1 / (4 * pi)) (1 / (8 * pi)),
           PathSegment.color = Vec3 1 (1/2) (1/4), remainingBounces = 7\<rparr>, sconst 0)
   \<and> max (dot (Vec3 0 1 0) (normalize (vsub (Vec3 0 1 0) (Vec3 0 0 0)))) 0 + 0.2 = 1.2
   \<and> Vec3 1 (1/2) (1/4) \<noteq> vscale (Vec3 1 (1/2) (1/4)) 1.2"
  by (simp add: scatterRay_eval reads_one_light hemisphere_up_00 TWO_PI_def vec_defs)

text \<open>
  C5, amended. When \<open>hasReflective = 0\<close>, every call whose branch sample is positive
  takes the diffuse branch, and the stored colour is the material's base colour.
\<close>

theorem no_reflectivity:
  assumes "scatterRay cam rng p isect mat lights lightsNum geoms materials = Inr (p', rng')"
      and "hasReflective mat = 0" and "0 < shd rng"
  shows "p' = p\<lparr>ray := \<lparr>origin = intersectPos isect,
                         direction = fst (calculateRandomDirectionInHemisphere
                                           (surfaceNormal isect) (stl (stl rng)))\<rparr>,
                throughput := vmul (throughput p)
                  (vdiv (vscale (Material.color mat)
                                \<bar>dot (direction (ray p)) (surfaceNormal isect)\<bar>) TWO_PI),
                PathSegment.color := Material.color mat,
                remainingBounces := remainingBounces p - 1\<rparr>
         \<and> rng' = stl (stl (stl (stl rng)))
         \<and> PathSegment.color p' = Material.color mat"
proof -
  have "\<not> shd rng \<le> hasReflective mat"
    using assms(2,3) by simp
  from scatterRay_diffuse [OF assms(1) this] show ?thesis
    by simp
qed

text \<open>
  C5, amended, in the scenario: normal \<open>(0, 1, 0)\<close>, throughput \<open>(1, 1, 1)\<close>, one light
  directly above, branch sample \<open>1/2\<close>.
\<close>

theorem no_reflectivity_witness:
  "hasReflective \<lparr>Material.color = Vec3 1 (1/2) (1/4),
      specular = \<lparr>exponent = 1, Specular.color = Vec3 (1/8) (1/8) (1/8)\<rparr>, hasReflective = 0\<rparr> = 0
   \<and> 0 < shd (1/2 ## 0 ## 0 ## 0 ## sconst (0::real))
   \<and> scatterRay \<lparr>position = Vec3 0 1 0\<rparr> (1/2 ## 0 ## 0 ## 0 ## sconst 0)
     \<lparr>ray = \<lparr>origin = Vec3 0 1 0, direction = Vec3 0 (-1) 0\<rparr>,
      throughput = Vec3 1 1 1, PathSegment.color = Vec3 0 0 0, remainingBounces = 8\<rparr>
     \<lparr>surfaceNormal = Vec3 0 1 0, intersectPos = Vec3 0 0 0\<rparr>
     \<lparr>Material.color = Vec3 1 (1/2) (1/4),
      specular = \<lparr>exponent = 1, Specular.color = Vec3 (1/8) (1/8) (1/8)\<rparr>, hasReflective = 0\<rparr>
     [0] 1 [\<lparr>translation = Vec3 0 1 0\<rparr>] ([] :: Material list)
   = Inr (\<lparr>ray = \<lparr>origin = Vec3 0 0 0, direction = Vec3 0 0 (-1)\<rparr>,
           throughput = Vec3 (1 / (2 * pi)) (1 / (4 * pi)) (1 / (8 * pi)),
           PathSegment.color = Vec3 1 (1/2) (1/4), remainingBounces = 7\<rparr>, sconst 0)
   \<and> PathSegment.color \<lparr>ray = \<lparr>origin = Vec3 0 0 0, direction = Vec3 0 0 (-1)\<rparr>,
           throughput = Vec3 (1 / (2 * pi)) (1 / (4 * pi)) (1 / (8 * pi)),
           PathSegment.color = Vec3 1 (1/2) (1/4), remainingBounces = 7\<rparr>
       = Material.color \<lparr>Material.color = Vec3 1 (1/2) (1/4),
      specular = \<lparr>exponent = 1, Specular.color = Vec3 (1/8) (1/8) (1/8)\<rparr>, hasReflective = 0\<rparr>
   \<and> sconst (0::real) = stl (stl (stl (stl (1/2 ## 0 ## 0 ## 0 ## sconst 0))))"
proof -
  let ?rng = "1/2 ## 0 ## 0 ## 0 ## sconst (0::real)"
  let ?mat = "\<lparr>Material.color = Vec3 1 (1/2) (1/4),
      specular = \<lparr>exponent = 1, Specular.color = Vec3 (1/8) (1/8) (1/8)\<rparr>, hasReflective = 0\<rparr>"
  have h: "hasReflective ?mat = 0" and u: "0 < shd ?rng"
    by simp_all
  have run: "scatterRay \<lparr>position = Vec3 0 1 0\<rparr> ?rng
     \<lparr>ray = \<lparr>origin = Vec3 0 1 0, direction = Vec3 0 (-1) 0\<rparr>,
      throughput = Vec3 1 1 1, PathSegment.color = Vec3 0 0 0, remainingBounces = 8\<rparr>
     \<lparr>surfaceNormal = Vec3 0 1 0, intersectPos = Vec3 0 0 0\<rparr> ?mat
     [0] 1 [\<lparr>translation = Vec3 0 1 0\<rparr>] ([] :: Material list)
   = Inr (\<lparr>ray = \<lparr>origin = Vec3 0 0 0, direction = Vec3 0 0 (-1)\<rparr>,
           throughput = Vec3 (1 / (2 * pi)) (1 / (4 * pi)) (1 / (8 * pi)),
           PathSegment.color = Vec3 1 (1/2) (1/4), remainingBounces = 7\<rparr>, sconst 0)"
    by (simp add: scatterRay_eval reads_one_light hemisphere_up_00 TWO_PI_def vec_defs)
  from no_reflectivity [OF run h u] run h u show ?thesis
    by simp
qed

section \<open>What a call changes\<close>

text \<open>
  C6. Every call whose array reads are defined decrements \<open>remainingBounces\<close> by exactly
  one, stores the colour computed by the branch taken as the path's colour, sets the
  ray's origin to the intersection position, and leaves every part of the path segment
  other than \<open>ray\<close>, \<open>throughput\<close>, \<open>color\<close> and \<open>remainingBounces\<close> as it was.
\<close>

theorem scatterRay_frame:
  assumes "scatterRay cam rng p isect mat lights lightsNum geoms materials = Inr (p', rng')"
  shows "remainingBounces p' = remainingBounces p - 1
         \<and> PathSegment.color p' =
             (if shd rng \<le> hasReflective mat then Specular.color (specular mat)
              else Material.color mat)
         \<and> origin (ray p') = intersectPos isect
         \<and> PathSegment.more p' = PathSegment.more p"
proof (cases "shd rng \<le> hasReflective mat")
  case True
  from scatterRay_specular(1) [OF assms True] True show ?thesis by simp
next
  case False
  from scatterRay_diffuse(1) [OF assms False] False show ?thesis by simp
qed

text \<open>
  C6 at a path segment that carries a further field, holding \<open>640\<close>.
\<close>

theorem scatterRay_frame_witness:
  "scatterRay \<lparr>position = Vec3 0 1 0\<rparr> (1/2 ## 0 ## 0 ## 0 ## sconst 0)
     \<lparr>ray = \<lparr>origin = Vec3 0 1 0, direction = Vec3 0 (-1) 0\<rparr>,
      throughput = Vec3 1 1 1, PathSegment.color = Vec3 0 0 0, remainingBounces = 8,
      \<dots> = (640::int)\<rparr>
     \<lparr>surfaceNormal = Vec3 0 1 0, intersectPos = Vec3 0 0 0\<rparr>
     \<lparr>Material.color = Vec3 1 (1/2) (1/4),
      specular = \<lparr>exponent = 1, Specular.color = Vec3 (1/8) (1/8) (1/8)\<rparr>, hasReflective = 0\<rparr>
     [0] 1 [\<lparr>translation = Vec3 0 1 0\<rparr>] ([] :: Material list)
   = Inr (\<lparr>ray = \<lparr>origin = Vec3 0 0 0, direction = Vec3 0 0 (-1)\<rparr>,
           throughput = Vec3 (1 / (2 * pi)) (1 / (4 * pi)) (1 / (8 * pi)),
           PathSegment.color = Vec3 1 (1/2) (1/4), remainingBounces = 7,
           \<dots> = (640::int)\<rparr>, sconst 0)
   \<and> (7::int) = 8 - 1"
proof -
  have run: "scatterRay \<lparr>position = Vec3 0 1 0\<rparr> (1/2 ## 0 ## 0 ## 0 ## sconst 0)
     \<lparr>ray = \<lparr>origin = Vec3 0 1 0, direction = Vec3 0 (-1) 0\<rparr>,
      throughput = Vec3 1 1 1, PathSegment.color = Vec3 0 0 0, remainingBounces = 8,
      \<dots> = (640::int)\<rparr>
     \<lparr>surfaceNormal = Vec3 0 1 0, intersectPos = Vec3 0 0 0\<rparr>
     \<lparr>Material.color = Vec3 1 (1/2) (1/4),
      specular = \<lparr>exponent = 1, Specular.color = Vec3 (1/8) (1/8) (1/8)\<rparr>, hasReflective = 0\<rparr>
     [0] 1 [\<lparr>translation = Vec3 0 1 0\<rparr>] ([] :: Material list)
   = Inr (\<lparr>ray = \<lparr>origin = Vec3 0 0 0, direction = Vec3 0 0 (-1)\<rparr>,
           throughput = Vec3 (1 / (2 * pi)) (1 / (4 * pi)) (1 / (8 * pi)),
           PathSegment.color = Vec3 1 (1/2) (1/4), remainingBounces = 7,
           \<dots> = (640::int)\<rparr>, sconst 0)"
    by (simp add: scatterRay_eval reads_one_light hemisphere_up_00 TWO_PI_def vec_defs)
  from scatterRay_frame [OF run] run show ?thesis
    by simp
qed

section \<open>The hemisphere sampler\<close>

text \<open>
  C7. For a unit normal \<open>n\<close> and samples \<open>u1\<close>, \<open>u2\<close> in \<open>[0, 1)\<close>, the sampled direction
  has length one and a non-negative component along \<open>n\<close>; it is
  \<open>cosTheta * n + cos(phi) * sinTheta * t1 + sin(phi) * sinTheta * t2\<close> with
  \<open>cosTheta = sqrt u1\<close>, \<open>sinTheta = sqrt (1 - cosTheta\<^sup>2)\<close>, \<open>phi = 2\<pi> * u2\<close>, where \<open>n\<close>,
  \<open>t1\<close>, \<open>t2\<close> are of length one and pairwise orthogonal. The sampler draws exactly two
  samples. (Over the reals; the source's \<^verbatim>\<open>float\<close> arithmetic meets this up to
  rounding.)
\<close>

theorem hemisphere_sample:
  assumes "vlength n = 1"
      and "0 \<le> shd g" and "shd g < 1" and "0 \<le> shd (stl g)" and "shd (stl g) < 1"
  shows "vlength (fst (calculateRandomDirectionInHemisphere n g)) = 1
         \<and> 0 \<le> dot (fst (calculateRandomDirectionInHemisphere n g)) n
         \<and> fst (calculateRandomDirectionInHemisphere n g) =
             vadd (vadd (smul (sqrt (shd g)) n)
                        (smul (cos (2 * pi * shd (stl g)) * sqrt (1 - (sqrt (shd g))\<^sup>2))
                              (perpendicularDirection1 n)))
                  (smul (sin (2 * pi * shd (stl g)) * sqrt (1 - (sqrt (shd g))\<^sup>2))
                        (perpendicularDirection2 n))
         \<and> vlength (perpendicularDirection1 n) = 1
         \<and> vlength (perpendicularDirection2 n) = 1
         \<and> dot n (perpendicularDirection1 n) = 0
         \<and> dot n (perpendicularDirection2 n) = 0
         \<and> dot (perpendicularDirection1 n) (perpendicularDirection2 n) = 0
         \<and> snd (calculateRandomDirectionInHemisphere n g) = stl (stl g)"
proof -
  have n: "dot n n = 1"
    using assms(1) by (simp add: vlength_one_iff)
  have u: "shd g \<le> 1"
    using assms(3) by simp
  have "dot (fst (calculateRandomDirectionInHemisphere n g)) n = sqrt (shd g)"
    by (rule hemisphere_dot_normal [OF n])
  then have above: "0 \<le> dot (fst (calculateRandomDirectionInHemisphere n g)) n"
    using assms(2) by simp
  have unit: "vlength (fst (calculateRandomDirectionInHemisphere n g)) = 1"
    by (simp add: vlength_one_iff hemisphere_unit [OF n assms(2) u])
  have formula: "fst (calculateRandomDirectionInHemisphere n g) =
             vadd (vadd (smul (sqrt (shd g)) n)
                        (smul (cos (2 * pi * shd (stl g)) * sqrt (1 - (sqrt (shd g))\<^sup>2))
                              (perpendicularDirection1 n)))
                  (smul (sin (2 * pi * shd (stl g)) * sqrt (1 - (sqrt (shd g))\<^sup>2))
                        (perpendicularDirection2 n))"
    by (simp add: hemisphere_value mult.commute)
  show ?thesis
    using above unit formula
    by (simp only: vlength_one_iff perp1_unit [OF n] perp2_unit [OF n] perp1_orth perp2_orth
          perp12_orth hemisphere_rng)
qed

text \<open>
  C7 at the normal \<open>(0, 1, 0)\<close> with samples \<open>1/4\<close> and \<open>1/2\<close>.
\<close>

theorem hemisphere_sample_witness:
  "vlength (Vec3 0 1 0) = 1
   \<and> (0::real) \<le> shd (1/4 ## 1/2 ## sconst 0) \<and> shd (1/4 ## 1/2 ## sconst 0) < (1::real)
   \<and> (0::real) \<le> shd (stl (1/4 ## 1/2 ## sconst 0)) \<and> shd (stl (1/4 ## 1/2 ## sconst 0)) < (1::real)
   \<and> vlength (fst (calculateRandomDirectionInHemisphere (Vec3 0 1 0) (1/4 ## 1/2 ## sconst 0))) = 1
   \<and> 0 \<le> dot (fst (calculateRandomDirectionInHemisphere (Vec3 0 1 0) (1/4 ## 1/2 ## sconst 0)))
              (Vec3 0 1 0)
   \<and> perpendicularDirection1 (Vec3 0 1 0) = Vec3 0 0 (-1)
   \<and> perpendicularDirection2 (Vec3 0 1 0) = Vec3 (-1) 0 0"
proof -
  have n: "vlength (Vec3 0 1 0) = 1"
    by (simp add: vlength_def dot_def)
  have u: "(0::real) \<le> shd (1/4 ## 1/2 ## sconst 0)" "shd (1/4 ## 1/2 ## sconst 0) < (1::real)"
    "(0::real) \<le> shd (stl (1/4 ## 1/2 ## sconst 0))" "shd (stl (1/4 ## 1/2 ## sconst 0)) < (1::real)"
    by simp_all
  from hemisphere_sample [OF n u] n u perpendicular_up show ?thesis
    by blast
qed

section \<open>Light selection\<close>

text \<open>
  The product that is cast is the rounded one. At the sample \<open>11744051 / 2\<^sup>2\<^sup>4\<close> (the
  \<^verbatim>\<open>float\<close> nearest to \<open>0.7\<close>) and ten lights it is \<open>7\<close>, where the exact product has
  floor \<open>6\<close>.
\<close>

lemma float_product_rounds_up:
  "float_round (11744051 / 2 ^ 24) = 11744051 / 2 ^ 24"
  "float_mul (11744051 / 2 ^ 24) (float_of_int 10) = 7"
  "\<lfloor>11744051 / 2 ^ 24 * real_of_int 10\<rfloor> = 6"
proof -
  show "float_round (11744051 / 2 ^ 24) = 11744051 / 2 ^ 24"
    by (rule float_round_exact [where e = "- 1" and m = 11744051]) (simp_all add: pow2_eval)
  have "float_round (11744051 / 2 ^ 24 * 10) = 7"
    by (subst float_round_eval [where e = 2]) (simp_all add: pow2_eval round_half_even_def)
  then show "float_mul (11744051 / 2 ^ 24) (float_of_int 10) = 7"
    by (simp add: float_mul_def float_of_int_10)
  show "\<lfloor>11744051 / 2 ^ 24 * real_of_int 10\<rfloor> = 6"
    by simp
qed

text \<open>
  C8. With a positive light count (a 32-bit \<^verbatim>\<open>int\<close>, so below \<open>2\<^sup>3\<^sup>1\<close>) and the second
  sample \<open>u\<close> a \<^verbatim>\<open>float\<close> in \<open>[0, 1)\<close>, the light-selection step casts the product
  \<open>u * lightsNum\<close>, as \<^verbatim>\<open>float\<close> arithmetic computes it, to the index
  \<open>floor (u * lightsNum)\<close>, and this index lies between \<open>0\<close> and \<open>lightsNum - 1\<close>. The
  call reads the light-index list at exactly this index and the geometry array at the
  entry found there: it returns precisely when these two reads are defined. Hence the
  read of the light-index list is in bounds when the list has at least \<open>lightsNum\<close>
  entries, and both reads are in bounds when, moreover, every entry of the list is an
  index into the geometry array.
\<close>

theorem light_selection_in_bounds:
  assumes "0 < lightsNum" and "lightsNum < 2 ^ 31"
      and "float_round (shd (stl rng)) = shd (stl rng)"
      and "0 \<le> shd (stl rng)" and "shd (stl rng) < 1"
  shows "int_of_float (float_mul (shd (stl rng)) (float_of_int lightsNum))
           = Inr \<lfloor>float_mul (shd (stl rng)) (float_of_int lightsNum)\<rfloor>
         \<and> 0 \<le> \<lfloor>float_mul (shd (stl rng)) (float_of_int lightsNum)\<rfloor>
         \<and> \<lfloor>float_mul (shd (stl rng)) (float_of_int lightsNum)\<rfloor> \<le> lightsNum - 1
         \<and> ((\<exists>r. scatterRay cam rng p isect mat lights lightsNum geoms materials = Inr r)
              = (\<exists>gi g. index lights \<lfloor>float_mul (shd (stl rng)) (float_of_int lightsNum)\<rfloor> = Inr gi
                        \<and> index geoms gi = Inr g))
         \<and> (lightsNum \<le> int (length lights) \<longrightarrow>
              index lights \<lfloor>float_mul (shd (stl rng)) (float_of_int lightsNum)\<rfloor>
                = Inr (lights ! nat \<lfloor>float_mul (shd (stl rng)) (float_of_int lightsNum)\<rfloor>))
         \<and> (lightsNum \<le> int (length lights)
              \<and> list_all (\<lambda>gi. 0 \<le> gi \<and> gi < int (length geoms)) lights \<longrightarrow>
              (\<exists>r. scatterRay cam rng p isect mat lights lightsNum geoms materials = Inr r))"
proof -
  let ?rL = "float_mul (shd (stl rng)) (float_of_int lightsNum)"
  let ?i = "\<lfloor>?rL\<rfloor>"
  have u: "shd (stl rng) \<le> 1 - 1 / 2 ^ 24"
    by (rule float_below_one [OF assms(3,4,5)])
  have nonneg: "0 \<le> ?rL" and below: "?rL < real_of_int lightsNum"
    by (rule float_product_below [OF assms(1,4) u])+
  have lo: "0 \<le> ?i"
    using nonneg by simp
  have "?i < lightsNum"
    using below by (simp add: floor_less_iff)
  then have hi: "?i \<le> lightsNum - 1"
    by simp
  have trunc: "(if 0 \<le> ?rL then \<lfloor>?rL\<rfloor> else \<lceil>?rL\<rceil>) = ?i"
    using nonneg by simp
  have "(0::int) \<le> 2 ^ 31"
    by simp
  then have range: "- (2 ^ 31) \<le> ?i \<and> ?i < 2 ^ 31"
    using lo hi assms(2) by linarith
  have cast: "int_of_float ?rL = Inr ?i"
    unfolding int_of_float_def Let_def trunc by (rule if_P) (rule range)
  have tie: "(\<exists>r. scatterRay cam rng p isect mat lights lightsNum geoms materials = Inr r)
              = (\<exists>gi g. index lights ?i = Inr gi \<and> index geoms gi = Inr g)"
    unfolding scatterRay_returns_iff cast by simp
  have first: "index lights ?i = Inr (lights ! nat ?i)" if len: "lightsNum \<le> int (length lights)"
    using lo hi len by (simp add: index_def)
  have reads: "\<exists>r. scatterRay cam rng p isect mat lights lightsNum geoms materials = Inr r"
    if len: "lightsNum \<le> int (length lights)"
      and valid: "list_all (\<lambda>gi. 0 \<le> gi \<and> gi < int (length geoms)) lights"
  proof -
    have inl: "nat ?i < length lights"
      using lo hi len by linarith
    then have "lights ! nat ?i \<in> set lights"
      by simp
    then have ok: "0 \<le> lights ! nat ?i \<and> lights ! nat ?i < int (length geoms)"
      using valid by (simp add: list_all_iff)
    have g: "index geoms (lights ! nat ?i) = Inr (geoms ! nat (lights ! nat ?i))"
      using ok by (simp add: index_def)
    show ?thesis
      unfolding tie using first [OF len] g by blast
  qed
  show ?thesis
    using cast lo hi tie first reads by blast
qed

text \<open>
  C8 with three lights and the sample \<open>3/4\<close>, which selects index \<open>2\<close> and reads
  geometry \<open>1\<close>. With the lights \<open>[0, 99]\<close>, one geometry and the same sample the
  index is \<open>1\<close>, and the call reads geometry \<open>99\<close>, out of bounds: the entry read is
  the selected one.
\<close>

theorem light_selection_in_bounds_witness:
  "(0::int) < 3 \<and> (3::int) < 2 ^ 31
   \<and> float_round (shd (stl (1/2 ## 3/4 ## sconst 0))) = shd (stl (1/2 ## 3/4 ## sconst 0))
   \<and> (0::real) \<le> shd (stl (1/2 ## 3/4 ## sconst 0)) \<and> shd (stl (1/2 ## 3/4 ## sconst 0)) < (1::real)
   \<and> int_of_float (float_mul (shd (stl (1/2 ## 3/4 ## sconst 0))) (float_of_int 3)) = Inr 2
   \<and> (3::int) \<le> int (length [2, 0, 1 :: int])
   \<and> index [2, 0, 1 :: int] 2 = Inr 1
   \<and> list_all (\<lambda>gi. 0 \<le> gi \<and> gi < int (length
         [\<lparr>translation = Vec3 0 1 0\<rparr>, \<lparr>translation = Vec3 1 1 0\<rparr>, \<lparr>translation = Vec3 2 1 0\<rparr>]))
         [2, 0, 1]
   \<and> (\<exists>r. scatterRay \<lparr>position = Vec3 0 1 0\<rparr> (1/2 ## 3/4 ## sconst 0)
        \<lparr>ray = \<lparr>origin = Vec3 0 1 0, direction = Vec3 0 (-1) 0\<rparr>,
         throughput = Vec3 1 1 1, PathSegment.color = Vec3 0 0 0, remainingBounces = 8\<rparr>
        \<lparr>surfaceNormal = Vec3 0 1 0, intersectPos = Vec3 0 0 0\<rparr>
        \<lparr>Material.color = Vec3 1 1 1,
         specular = \<lparr>exponent = 1, Specular.color = Vec3 1 1 1\<rparr>, hasReflective = 1\<rparr>
        [2, 0, 1] 3
        [\<lparr>translation = Vec3 0 1 0\<rparr>, \<lparr>translation = Vec3 1 1 0\<rparr>, \<lparr>translation = Vec3 2 1 0\<rparr>]
        ([] :: Material list) = Inr r)
   \<and> scatterRay \<lparr>position = Vec3 0 1 0\<rparr> (1/2 ## 3/4 ## sconst 0)
        \<lparr>ray = \<lparr>origin = Vec3 0 1 0, direction = Vec3 0 (-1) 0\<rparr>,
         throughput = Vec3 1 1 1, PathSegment.color = Vec3 0 0 0, remainingBounces = 8\<rparr>
        \<lparr>surfaceNormal = Vec3 0 1 0, intersectPos = Vec3 0 0 0\<rparr>
        \<lparr>Material.color = Vec3 1 1 1,
         specular = \<lparr>exponent = 1, Specular.color = Vec3 1 1 1\<rparr>, hasReflective = 1\<rparr>
        [0, 99] 2 [\<lparr>translation = Vec3 0 1 0\<rparr>] ([] :: Material list) = Inl OutOfBounds"
proof -
  let ?rng = "1/2 ## 3/4 ## sconst (0::real)"
  let ?geoms = "[\<lparr>translation = Vec3 0 1 0\<rparr>, \<lparr>translation = Vec3 1 1 0\<rparr>,
                 \<lparr>translation = Vec3 2 1 0\<rparr>]"
  have n: "(0::int) < 3" "(3::int) < 2 ^ 31"
    by simp_all
  have f: "float_round (shd (stl ?rng)) = shd (stl ?rng)"
    by (simp add: float_round_three_quarters)
  have u: "0 \<le> shd (stl ?rng)" "shd (stl ?rng) < 1"
    by simp_all
  have len: "(3::int) \<le> int (length [2, 0, 1 :: int])"
    by simp
  have valid: "list_all (\<lambda>gi. 0 \<le> gi \<and> gi < int (length ?geoms)) [2, 0, 1]"
    by simp
  have entry: "index [2, 0, 1 :: int] 2 = Inr 1"
    by (simp add: index_def)
  have "float_mul (shd (stl ?rng)) (float_of_int 3) = 9 / 4"
    by (simp add: float_mul_def float_of_int_3 float_round_nine_quarters)
  then have fl: "\<lfloor>float_mul (shd (stl ?rng)) (float_of_int 3)\<rfloor> = 2"
    by (simp only: floor_eq_iff) simp
  note sel = light_selection_in_bounds [OF n f u, where lights = "[2, 0, 1]" and geoms = ?geoms]
  from sel have cast: "int_of_float (float_mul (shd (stl ?rng)) (float_of_int 3)) = Inr 2"
    unfolding fl by (rule conjunct1)
  from sel len valid have reads: "\<exists>r. scatterRay \<lparr>position = Vec3 0 1 0\<rparr> ?rng
        \<lparr>ray = \<lparr>origin = Vec3 0 1 0, direction = Vec3 0 (-1) 0\<rparr>,
         throughput = Vec3 1 1 1, PathSegment.color = Vec3 0 0 0, remainingBounces = 8\<rparr>
        \<lparr>surfaceNormal = Vec3 0 1 0, intersectPos = Vec3 0 0 0\<rparr>
        \<lparr>Material.color = Vec3 1 1 1,
         specular = \<lparr>exponent = 1, Specular.color = Vec3 1 1 1\<rparr>, hasReflective = 1\<rparr>
        [2, 0, 1] 3 ?geoms ([] :: Material list) = Inr r"
    by blast
  have prod: "float_mul (3 / 4) (float_of_int 2) = 3 / 2"
    by (simp add: float_mul_def float_of_int_2 float_round_three_halves)
  have one: "int_of_float (3 / 2) = Inr 1"
    by (simp add: int_of_float_def)
  have other: "scatterRay \<lparr>position = Vec3 0 1 0\<rparr> ?rng
        \<lparr>ray = \<lparr>origin = Vec3 0 1 0, direction = Vec3 0 (-1) 0\<rparr>,
         throughput = Vec3 1 1 1, PathSegment.color = Vec3 0 0 0, remainingBounces = 8\<rparr>
        \<lparr>surfaceNormal = Vec3 0 1 0, intersectPos = Vec3 0 0 0\<rparr>
        \<lparr>Material.color = Vec3 1 1 1,
         specular = \<lparr>exponent = 1, Specular.color = Vec3 1 1 1\<rparr>, hasReflective = 1\<rparr>
        [0, 99] 2 [\<lparr>translation = Vec3 0 1 0\<rparr>] ([] :: Material list) = Inl OutOfBounds"
    by (simp add: scatterRay_eval prod one index_def)
  from n f u cast len entry valid reads other show ?thesis
    by (intro conjI)
qed

section \<open>Determinism and unused parameters\<close>

lemma stake_four:
  assumes "stake 4 a = stake 4 b"
  shows "shd a = shd b" "shd (stl a) = shd (stl b)"
    "shd (stl (stl a)) = shd (stl (stl b))" "shd (stl (stl (stl a))) = shd (stl (stl (stl b)))"
  using assms by (simp_all add: eval_nat_numeral)

text \<open>
  C9. The outcome of a call (the error, or the final path segment with its stored
  colour) is a function of the arguments and of the samples the engine delivers: two
  runs on the same arguments whose engines agree on the next four samples have the
  same outcome. In particular two runs from the same engine state do.
\<close>

theorem scatterRay_deterministic:
  assumes "stake 4 rng1 = stake 4 rng2"
  shows "map_sum id fst (scatterRay cam rng1 p isect mat lights lightsNum geoms materials)
         = map_sum id fst (scatterRay cam rng2 p isect mat lights lightsNum geoms materials)"
  using stake_four [OF assms]
  by (simp add: scatterRay_eval hemisphere_value split: sum.splits)

text \<open>
  C9 at two engines that agree on four samples and differ afterwards.
\<close>

theorem scatterRay_deterministic_witness:
  "stake 4 (3/4 ## 0 ## 0 ## 0 ## sconst (0::real)) = stake 4 (3/4 ## 0 ## 0 ## 0 ## sconst 1)
   \<and> map_sum id fst (scatterRay \<lparr>position = Vec3 0 1 0\<rparr> (3/4 ## 0 ## 0 ## 0 ## sconst 0)
     \<lparr>ray = \<lparr>origin = Vec3 0 1 0, direction = Vec3 0 (-1) 0\<rparr>,
      throughput = Vec3 1 1 1, PathSegment.color = Vec3 0 0 0, remainingBounces = 8\<rparr>
     \<lparr>surfaceNormal = Vec3 0 1 0, intersectPos = Vec3 0 0 0\<rparr>
     \<lparr>Material.color = Vec3 1 (1/2) (1/4),
      specular = \<lparr>exponent = 1, Specular.color = Vec3 1 1 1\<rparr>, hasReflective = 1/2\<rparr>
     [0] 1 [\<lparr>translation = Vec3 0 1 0\<rparr>] ([] :: Material list))
   = map_sum id fst (scatterRay \<lparr>position = Vec3 0 1 0\<rparr> (3/4 ## 0 ## 0 ## 0 ## sconst 1)
     \<lparr>ray = \<lparr>origin = Vec3 0 1 0, direction = Vec3 0 (-1) 0\<rparr>,
      throughput = Vec3 1 1 1, PathSegment.color = Vec3 0 0 0, remainingBounces = 8\<rparr>
     \<lparr>surfaceNormal = Vec3 0 1 0, intersectPos = Vec3 0 0 0\<rparr>
     \<lparr>Material.color = Vec3 1 (1/2) (1/4),
      specular = \<lparr>exponent = 1, Specular.color = Vec3 1 1 1\<rparr>, hasReflective = 1/2\<rparr>
     [0] 1 [\<lparr>translation = Vec3 0 1 0\<rparr>] ([] :: Material list))"
proof -
  have same: "stake 4 (3/4 ## 0 ## 0 ## 0 ## sconst (0::real)) = stake 4 (3/4 ## 0 ## 0 ## 0 ## sconst 1)"
    by (simp add: eval_nat_numeral)
  from scatterRay_deterministic [OF same] same show ?thesis
    by blast
qed

text \<open>
  C10. Neither the camera nor the materials array is read: two calls that differ only
  in these two arguments have the same outcome, final engine state included.
\<close>

theorem scatterRay_ignores_camera_and_materials:
  "scatterRay cam rng p isect mat lights lightsNum geoms materials
   = scatterRay cam' rng p isect mat lights lightsNum geoms materials'"
  by (simp add: scatterRay_eval)

end
